theory Spec2Isabelle
  imports Main "HOL-Library.AList" "HOL-Library.Word"
begin

section \<open>Values, exceptions and observable effects\<close>

text \<open>
  The values a caller puts into a record tuple or a document. A Python float is kept as
  its IEEE-754 bit pattern: the class only stores and hands back floats, it never
  computes with them.
\<close>

datatype pyval = PyNone | PyInt int | PyFloat "64 word" | PyStr string

type_synonym row = "pyval list"

text \<open>A Python dict with string keys, in insertion order; the keys are distinct.\<close>

type_synonym document = "(string \<times> pyval) list"

text \<open>
  \<^verbatim>\<open>dict(pairs)\<close> and a dict comprehension over pairs: a key seen again keeps its
  place and takes the later value.
\<close>

definition py_dict :: "(string \<times> pyval) list \<Rightarrow> document" where
  "py_dict ps = foldl (\<lambda>d (k, v). AList.update k v d) [] ps"

text \<open>The exceptions that occur in the class, by their Python class.\<close>

datatype exn =
    AttributeError string
  | ValueError string
  | IndexError
  | IntegrityError
  | ProgrammingError
  | OperationalError
  | DatabaseError
  | OverflowError
  | PyMongoError string

text \<open>
  What a run leaves behind besides its return value: the lines it prints, the locks it
  takes and releases, and the calls it makes on the two stores, in order.
\<close>

datatype log_line =
    DuplicateEntryDetected pyval pyval
  | SqliteInsertError exn
  | MongoInsertError exn
  | SqliteBulkInsertError exn
  | MongoBulkInsertError exn
  | MongoConnected
  | MongoConnectionError exn
  | MongoFindError exn
  | SqliteFindError exn

datatype lock = SqlLock | MongoLock

datatype store_call =
    Connect | ExecuteSchema | ExecutePragma | Execute | ExecuteMany | Commit | Rollback
  | ExecuteSelect | FetchAll

datatype mongo_call = Ping | InsertOne | InsertMany | Find

datatype event =
    Print log_line
  | Acquire lock
  | Release lock
  | Sqlite store_call
  | Mongo mongo_call

section \<open>What SQLite makes of a Python value\<close>

text \<open>
  The four storage classes a value of the table can have (the class never binds bytes,
  so there is no BLOB).
\<close>

datatype sqlval = SqlNull | SqlInteger int | SqlReal "64 word" | SqlText string

type_synonym sqlrow = "sqlval list"

text \<open>
  A float is a NaN when its exponent bits are all set and its fraction is not zero,
  that is, when its bits without the sign lie above those of infinity.
\<close>

definition is_nan :: "64 word \<Rightarrow> bool" where
  "is_nan w = (0x7FF0000000000000 < unat w mod 2 ^ 63)"

text \<open>
  Binding a parameter: \<^verbatim>\<open>None\<close> is NULL, an int must fit 64 bits (the module raises
  OverflowError otherwise), a float is a REAL except that SQLite takes a NaN as NULL,
  a str is TEXT.
\<close>

fun bind :: "pyval \<Rightarrow> exn + sqlval" where
  "bind PyNone = Inr SqlNull"
| "bind (PyInt i) =
     (if - (2 ^ 63) \<le> i \<and> i < 2 ^ 63 then Inr (SqlInteger i) else Inl OverflowError)"
| "bind (PyFloat w) = Inr (if is_nan w then SqlNull else SqlReal w)"
| "bind (PyStr s) = Inr (SqlText s)"

fun bind_row :: "row \<Rightarrow> exn + sqlrow" where
  "bind_row [] = Inr []"
| "bind_row (v # vs) =
     (case bind v of
        Inl e \<Rightarrow> Inl e
      | Inr x \<Rightarrow> (case bind_row vs of Inl e \<Rightarrow> Inl e | Inr xs \<Rightarrow> Inr (x # xs)))"

text \<open>What a fetched value is in Python.\<close>

fun py_of_sql :: "sqlval \<Rightarrow> pyval" where
  "py_of_sql SqlNull = PyNone"
| "py_of_sql (SqlInteger i) = PyInt i"
| "py_of_sql (SqlReal w) = PyFloat w"
| "py_of_sql (SqlText s) = PyStr s"

text \<open>\<^verbatim>\<open>str\<close> of an int, which is also the text SQLite makes of an INTEGER.\<close>

fun str_nat :: "nat \<Rightarrow> string" where
  "str_nat n =
     (if n < 10 then [''0123456789'' ! n]
      else str_nat (n div 10) @ [''0123456789'' ! (n mod 10)])"

declare str_nat.simps [simp del]

definition str_int :: "int \<Rightarrow> string" where
  "str_int i = (if i < 0 then ''-'' @ str_nat (nat (- i)) else str_nat (nat i))"

text \<open>
  The double nearest to an integer, ties to the even fraction: the bits of a positive
  \<open>a\<close> are its exponent and the 52 bits after its leading one, rounded when \<open>a\<close> has
  more than 53 bits (a carry out of the fraction moves into the exponent).
\<close>

fun bit_length :: "nat \<Rightarrow> nat" where
  "bit_length n = (if n = 0 then 0 else Suc (bit_length (n div 2)))"

declare bit_length.simps [simp del]

definition double_bits :: "nat \<Rightarrow> nat" where
  "double_bits a =
     (let n = bit_length a in
      if n \<le> 53 then (n - 1 + 1023) * 2 ^ 52 + (a * 2 ^ (53 - n) - 2 ^ 52)
      else
        (let sh = n - 53; q = a div 2 ^ sh; r = a mod 2 ^ sh; h = 2 ^ (sh - 1);
             q' = (if h < r \<or> (r = h \<and> odd q) then q + 1 else q)
         in (n - 1 + 1023) * 2 ^ 52 + (q' - 2 ^ 52)))"

definition real_of_integer :: "int \<Rightarrow> 64 word" where
  "real_of_integer i =
     (if i = 0 then 0
      else if i < 0 then word_of_nat (2 ^ 63 + double_bits (nat (- i)))
      else word_of_nat (double_bits (nat i)))"

text \<open>Names of tables and columns are matched without regard to the case of ASCII letters.\<close>

definition lower_char :: "char \<Rightarrow> char" where
  "lower_char c =
     (case map_of (zip ''ABCDEFGHIJKLMNOPQRSTUVWXYZ'' ''abcdefghijklmnopqrstuvwxyz'') c of
        Some l \<Rightarrow> l
      | None \<Rightarrow> c)"

definition sql_lower :: "string \<Rightarrow> string" where
  "sql_lower name = map lower_char name"

section \<open>The mode's schema (\<^verbatim>\<open>__set_mode_specifics\<close>)\<close>

datatype affinity = TEXT | REAL

datatype column = Column (col_name: string) (col_type: affinity) (not_null: bool)

text \<open>\<^verbatim>\<open>CREATE TABLE IF NOT EXISTS tbl (cols, PRIMARY KEY (pk))\<close>\<close>

datatype create_table =
  CreateTableIfNotExists (tbl: string) (cols: "column list") (pk: "string list")

text \<open>\<^verbatim>\<open>INSERT INTO into (fields) VALUES (?, ..., ?)\<close>, one placeholder per field.\<close>

datatype insert_cmd = InsertInto (ins_table: string) (ins_fields: "string list")

definition aux_columns :: "column list" where
  "aux_columns =
     [Column ''timestamp'' TEXT True,
      Column ''currency'' TEXT True,
      Column ''rate'' REAL True]"

definition main_columns :: "column list" where
  "main_columns =
     [Column ''timestamp'' TEXT True,
      Column ''currency'' TEXT True,
      Column ''max'' REAL True,
      Column ''min'' REAL True,
      Column ''max_min'' REAL True,
      Column ''mean'' REAL True,
      Column ''corr_btc'' REAL False,
      Column ''norm_vol'' REAL True,
      Column ''fd'' REAL True,
      Column ''insert_timestamp'' TEXT True]"

record mode_specifics =
  ms_sql_schema :: create_table
  ms_sql_insert_cmd :: insert_cmd
  ms_mongo_data_dict :: document

text \<open>
  The attributes the method sets, from the mode and the collection name. The source is
  an \<^verbatim>\<open>if mode == 'aux'\<close> / \<^verbatim>\<open>elif mode == 'main'\<close> with no \<^verbatim>\<open>else\<close>: for any other
  mode it returns having set nothing (\<open>None\<close> here).
\<close>

definition set_mode_specifics :: "string \<Rightarrow> string \<Rightarrow> mode_specifics option" where
  "set_mode_specifics mode collection_name =
     (if mode = ''aux'' then
        Some \<lparr>ms_sql_schema =
                CreateTableIfNotExists collection_name aux_columns [''timestamp'', ''currency''],
              ms_sql_insert_cmd =
                InsertInto collection_name [''timestamp'', ''currency'', ''rate''],
              ms_mongo_data_dict =
                [(''timestamp'', PyNone), (''currency'', PyNone), (''rate'', PyNone)]\<rparr>
      else if mode = ''main'' then
        Some \<lparr>ms_sql_schema =
                CreateTableIfNotExists collection_name main_columns [''timestamp''],
              ms_sql_insert_cmd =
                InsertInto collection_name
                  [''timestamp'', ''currency'', ''max'', ''min'', ''max_min'', ''mean'',
                   ''corr_btc'', ''norm_vol'', ''fd'', ''insert_timestamp''],
              ms_mongo_data_dict =
                [(''timestamp'', PyNone), (''currency'', PyNone), (''max'', PyNone),
                 (''min'', PyNone), (''max_min'', PyNone), (''mean'', PyNone),
                 (''corr_btc'', PyNone), (''norm_vol'', PyNone), (''fd'', PyNone),
                 (''insert_timestamp'', PyNone)]\<rparr>
      else None)"

section \<open>The relational store\<close>

text \<open>
  The SQLite connection the instance holds, for the one table its statements name: the
  table's definition, the rows on disk (\<open>committed\<close>) and the rows the connection sees,
  which are the committed ones followed by the inserts of the open transaction
  (\<open>pending\<close>). Python's \<^verbatim>\<open>sqlite3\<close> opens a transaction before an INSERT and keeps it
  until \<^verbatim>\<open>commit\<close> or \<^verbatim>\<open>rollback\<close>. Two conversions of the engine are not computed here
  and belong to the connection: the text it makes of a REAL, and the REAL it reads from
  a TEXT that is a well-formed number (\<open>None\<close> when it is not).
\<close>

record sqlite_db =
  table_def :: create_table
  committed :: "sqlrow list"
  pending :: "sqlrow list"
  text_of_real :: "64 word \<Rightarrow> string"
  real_of_text :: "string \<Rightarrow> 64 word option"

text \<open>SQLite keeps no negative zero in a REAL column.\<close>

definition normal_real :: "64 word \<Rightarrow> 64 word" where
  "normal_real w = (if w = 0x8000000000000000 then 0 else w)"

text \<open>
  The affinity of the column decides what is stored: a TEXT column turns a number into
  its text; a REAL column turns an INTEGER into a REAL and a TEXT that is a number into
  that number, and leaves any other TEXT as it is.
\<close>

fun apply_affinity :: "sqlite_db \<Rightarrow> affinity \<Rightarrow> sqlval \<Rightarrow> sqlval" where
  "apply_affinity db TEXT (SqlInteger i) = SqlText (str_int i)"
| "apply_affinity db TEXT (SqlReal w) = SqlText (text_of_real db w)"
| "apply_affinity db REAL (SqlInteger i) = SqlReal (real_of_integer i)"
| "apply_affinity db REAL (SqlReal w) = SqlReal (normal_real w)"
| "apply_affinity db REAL (SqlText t) =
     (case real_of_text db t of Some w \<Rightarrow> SqlReal (normal_real w) | None \<Rightarrow> SqlText t)"
| "apply_affinity db a v = v"

text \<open>
  The statement compiles when its table is the connection's table and each of its fields
  is a column of it.
\<close>

definition prepares :: "insert_cmd \<Rightarrow> sqlite_db \<Rightarrow> bool" where
  "prepares cmd db =
     (sql_lower (ins_table cmd) = sql_lower (tbl (table_def db))
      \<and> list_all (\<lambda>f. sql_lower f \<in> set (map (\<lambda>c. sql_lower (col_name c)) (cols (table_def db))))
           (ins_fields cmd))"

text \<open>
  The row of the table that the bound values make: each column takes the value of the
  field of its name (the first one, when the statement names it twice), converted to
  the column's affinity, and NULL when the statement does not name it.
\<close>

definition stored_row :: "insert_cmd \<Rightarrow> sqlrow \<Rightarrow> sqlite_db \<Rightarrow> sqlrow" where
  "stored_row cmd vs db =
     map (\<lambda>c. case map_of (zip (map sql_lower (ins_fields cmd)) vs) (sql_lower (col_name c)) of
                 None \<Rightarrow> SqlNull
               | Some v \<Rightarrow> apply_affinity db (col_type c) v)
       (cols (table_def db))"

text \<open>
  What \<^verbatim>\<open>cursor.execute(sql_insert_cmd, data)\<close> does before it looks at the table's rows,
  in the order of the module: a statement that does not compile is an OperationalError, a
  wrong number of bindings a ProgrammingError, a value that cannot be bound an
  OverflowError; otherwise the row to insert is made.
\<close>

definition insert_row :: "insert_cmd \<Rightarrow> row \<Rightarrow> sqlite_db \<Rightarrow> exn + sqlrow" where
  "insert_row cmd data db =
     (if \<not> prepares cmd db then Inl OperationalError
      else if length data \<noteq> length (ins_fields cmd) then Inl ProgrammingError
      else (case bind_row data of
              Inl e \<Rightarrow> Inl e
            | Inr vs \<Rightarrow> Inr (stored_row cmd vs db)))"

definition violates_not_null :: "create_table \<Rightarrow> sqlrow \<Rightarrow> bool" where
  "violates_not_null td r =
     list_ex (\<lambda>(c, v). not_null c \<and> v = SqlNull) (zip (cols td) r)"

definition key_of :: "create_table \<Rightarrow> sqlrow \<Rightarrow> sqlrow" where
  "key_of td r =
     map snd (filter (\<lambda>(c, v). sql_lower (col_name c) \<in> set (map sql_lower (pk td)))
                (zip (cols td) r))"

text \<open>
  A row breaks the primary key when the table has one and the row's key, free of NULL,
  is the key of a row the connection sees.
\<close>

definition collides :: "create_table \<Rightarrow> sqlrow \<Rightarrow> sqlrow list \<Rightarrow> bool" where
  "collides td r rows =
     (pk td \<noteq> [] \<and> SqlNull \<notin> set (key_of td r)
      \<and> key_of td r \<in> set (map (key_of td) rows))"

text \<open>
  \<^verbatim>\<open>cursor.execute(sql_insert_cmd, data)\<close>: a NULL in a NOT NULL column or a primary key
  already present is an IntegrityError; otherwise the row joins the open transaction. A
  failed statement leaves the connection as it was.
\<close>

definition cursor_execute :: "insert_cmd \<Rightarrow> row \<Rightarrow> sqlite_db \<Rightarrow> exn + sqlite_db" where
  "cursor_execute cmd data db =
     (case insert_row cmd data db of
        Inl e \<Rightarrow> Inl e
      | Inr r \<Rightarrow>
          (if violates_not_null (table_def db) r \<or> collides (table_def db) r (pending db)
           then Inl IntegrityError
           else Inr (db\<lparr>pending := pending db @ [r]\<rparr>)))"

text \<open>
  \<^verbatim>\<open>cursor.executemany(sql_insert_cmd, records)\<close>: the statement is compiled, then run
  once per record, in order, up to the first failure; the rows inserted before it stay
  in the open transaction.
\<close>

fun execute_each :: "insert_cmd \<Rightarrow> row list \<Rightarrow> sqlite_db \<Rightarrow> (exn \<times> sqlite_db) + sqlite_db" where
  "execute_each cmd [] db = Inr db"
| "execute_each cmd (r # rs) db =
     (case cursor_execute cmd r db of
        Inl e \<Rightarrow> Inl (e, db)
      | Inr db' \<Rightarrow> execute_each cmd rs db')"

definition cursor_executemany ::
  "insert_cmd \<Rightarrow> row list \<Rightarrow> sqlite_db \<Rightarrow> (exn \<times> sqlite_db) + sqlite_db" where
  "cursor_executemany cmd records db =
     (if prepares cmd db then execute_each cmd records db else Inl (OperationalError, db))"

definition conn_commit :: "sqlite_db \<Rightarrow> sqlite_db" where
  "conn_commit db = db\<lparr>committed := pending db\<rparr>"

definition conn_rollback :: "sqlite_db \<Rightarrow> sqlite_db" where
  "conn_rollback db = db\<lparr>pending := committed db\<rparr>"

text \<open>
  The batches that go through: every record is acceptable on its own (the statement
  compiles, the record has the statement's length, its values can be bound, and the
  row they make has no NULL in a NOT NULL column), no two records make the same
  primary key, and none makes the key of a row the connection sees. \<open>accepted_rows\<close>
  gives the rows of such a batch, and \<open>None\<close> for any other.
\<close>

definition acceptable :: "insert_cmd \<Rightarrow> sqlite_db \<Rightarrow> row \<Rightarrow> sqlrow option" where
  "acceptable cmd db data =
     (case insert_row cmd data db of
        Inl e \<Rightarrow> None
      | Inr r \<Rightarrow> if violates_not_null (table_def db) r then None else Some r)"

definition accepted_rows :: "insert_cmd \<Rightarrow> row list \<Rightarrow> sqlite_db \<Rightarrow> sqlrow list option" where
  "accepted_rows cmd records db =
     (case those (map (acceptable cmd db) records) of
        None \<Rightarrow> None
      | Some rows \<Rightarrow>
          if distinct (map (key_of (table_def db)) rows)
             \<and> list_all (\<lambda>r. key_of (table_def db) r
                                \<notin> set (map (key_of (table_def db)) (pending db))) rows
          then Some rows else None)"

section \<open>The document store\<close>

text \<open>
  The remote collection behind \<^verbatim>\<open>self.collection\<close>: its documents, and the error the
  server answers with when it cannot be reached (\<open>None\<close> when it is up). The \<^verbatim>\<open>_id\<close>
  the server adds to a stored document is left out.
\<close>

record mongo_collection =
  unavailable :: "exn option"
  documents :: "document list"

definition insert_one :: "document \<Rightarrow> mongo_collection \<Rightarrow> exn + mongo_collection" where
  "insert_one doc c =
     (case unavailable c of
        Some e \<Rightarrow> Inl e
      | None \<Rightarrow> Inr (c\<lparr>documents := documents c @ [doc]\<rparr>))"

section \<open>The instance\<close>

text \<open>
  The attributes of a \<^verbatim>\<open>DB_Utils\<close> object. The ones that a method may find missing are
  options: the three that \<^verbatim>\<open>__set_mode_specifics\<close> sets and \<^verbatim>\<open>collection\<close>, which
  \<^verbatim>\<open>find_records\<close> probes with \<^verbatim>\<open>hasattr\<close>. \<open>trace\<close> collects the events of all calls.
\<close>

record db_utils =
  db_name :: string
  collection_name :: string
  mode :: string
  sql_schema :: "create_table option"
  sql_insert_cmd :: "insert_cmd option"
  mongo_data_dict :: "document option"
  conn :: sqlite_db
  collection :: "mongo_collection option"
  trace :: "event list"

definition emit :: "event list \<Rightarrow> db_utils \<Rightarrow> db_utils" where
  "emit es s = s\<lparr>trace := trace s @ es\<rparr>"

subsection \<open>\<^verbatim>\<open>push_to_sqlite_db\<close>\<close>

text \<open>
  The method has no \<^verbatim>\<open>return\<close>: it returns \<^verbatim>\<open>None\<close> on every path that returns. The
  IntegrityError handler reads \<^verbatim>\<open>data[0]\<close> and \<^verbatim>\<open>data[1]\<close>, so it raises IndexError
  on a shorter record. It does not take \<^verbatim>\<open>sql_lock\<close>.
\<close>

definition push_to_sqlite_db :: "db_utils \<Rightarrow> row \<Rightarrow> exn + (pyval \<times> db_utils)" where
  "push_to_sqlite_db s data =
     (case sql_insert_cmd s of
        None \<Rightarrow>
          Inr (PyNone, emit [Print (SqliteInsertError (AttributeError ''sql_insert_cmd''))] s)
      | Some cmd \<Rightarrow>
          (case cursor_execute cmd data (conn s) of
             Inr db' \<Rightarrow>
               Inr (PyNone, emit [Sqlite Execute, Sqlite Commit] (s\<lparr>conn := conn_commit db'\<rparr>))
           | Inl IntegrityError \<Rightarrow>
               (if length data < 2 then Inl IndexError
                else Inr (PyNone,
                          emit [Sqlite Execute,
                                Print (DuplicateEntryDetected (data ! 0) (data ! 1))] s))
           | Inl e \<Rightarrow>
               Inr (PyNone, emit [Sqlite Execute, Print (SqliteInsertError e)] s)))"

subsection \<open>\<^verbatim>\<open>bulk_insert_sqlite\<close>\<close>

text \<open>
  Under \<^verbatim>\<open>sql_lock\<close>: \<^verbatim>\<open>executemany\<close>, then \<^verbatim>\<open>commit\<close> and \<^verbatim>\<open>True\<close>; on any exception
  the error is printed, the connection rolled back, and the result is \<^verbatim>\<open>False\<close>.
\<close>

definition bulk_insert_sqlite :: "db_utils \<Rightarrow> row list \<Rightarrow> bool \<times> db_utils" where
  "bulk_insert_sqlite s records =
     (case sql_insert_cmd s of
        None \<Rightarrow>
          (False,
           emit [Acquire SqlLock,
                 Print (SqliteBulkInsertError (AttributeError ''sql_insert_cmd'')),
                 Sqlite Rollback, Release SqlLock]
             (s\<lparr>conn := conn_rollback (conn s)\<rparr>))
      | Some cmd \<Rightarrow>
          (case cursor_executemany cmd records (conn s) of
             Inr db' \<Rightarrow>
               (True,
                emit [Acquire SqlLock, Sqlite ExecuteMany, Sqlite Commit, Release SqlLock]
                  (s\<lparr>conn := conn_commit db'\<rparr>))
           | Inl (e, db') \<Rightarrow>
               (False,
                emit [Acquire SqlLock, Sqlite ExecuteMany, Print (SqliteBulkInsertError e),
                      Sqlite Rollback, Release SqlLock]
                  (s\<lparr>conn := conn_rollback db'\<rparr>))))"

subsection \<open>\<^verbatim>\<open>push_to_mongo_db\<close> and \<^verbatim>\<open>bulk_insert_mongo\<close>\<close>

text \<open>
  The document is built by zipping the keys of \<^verbatim>\<open>mongo_data_dict\<close> with the record, then
  inserted; the whole body is inside the \<^verbatim>\<open>try\<close>, and the method returns \<^verbatim>\<open>None\<close>.
\<close>

definition push_to_mongo_db :: "db_utils \<Rightarrow> row \<Rightarrow> pyval \<times> db_utils" where
  "push_to_mongo_db s data =
     (case mongo_data_dict s of
        None \<Rightarrow>
          (PyNone, emit [Print (MongoInsertError (AttributeError ''mongo_data_dict''))] s)
      | Some dd \<Rightarrow>
          (let document = py_dict (zip (map fst dd) data) in
           case collection s of
             None \<Rightarrow>
               (PyNone, emit [Print (MongoInsertError (AttributeError ''collection''))] s)
           | Some c \<Rightarrow>
               (case insert_one document c of
                  Inl e \<Rightarrow> (PyNone, emit [Mongo InsertOne, Print (MongoInsertError e)] s)
                | Inr c' \<Rightarrow> (PyNone, emit [Mongo InsertOne] (s\<lparr>collection := Some c'\<rparr>)))))"

definition insert_many :: "document list \<Rightarrow> mongo_collection \<Rightarrow> exn + mongo_collection" where
  "insert_many docs c =
     (case unavailable c of
        Some e \<Rightarrow> Inl e
      | None \<Rightarrow> Inr (c\<lparr>documents := documents c @ docs\<rparr>))"

definition bulk_insert_mongo :: "db_utils \<Rightarrow> document list \<Rightarrow> bool \<times> db_utils" where
  "bulk_insert_mongo s docs =
     (if docs = [] then (True, emit [Acquire MongoLock, Release MongoLock] s)
      else
        (case collection s of
           None \<Rightarrow>
             (False,
              emit [Acquire MongoLock,
                    Print (MongoBulkInsertError (AttributeError ''collection'')),
                    Release MongoLock] s)
         | Some c \<Rightarrow>
             (case insert_many docs c of
                Inl e \<Rightarrow>
                  (False,
                   emit [Acquire MongoLock, Mongo InsertMany, Print (MongoBulkInsertError e),
                         Release MongoLock] s)
              | Inr c' \<Rightarrow>
                  (True,
                   emit [Acquire MongoLock, Mongo InsertMany, Release MongoLock]
                     (s\<lparr>collection := Some c'\<rparr>)))))"

section \<open>Queries\<close>

text \<open>
  The arguments of \<^verbatim>\<open>find_records\<close>, as its docstring types them: the query is absent,
  a WHERE clause string (SQLite) or a filter dict (MongoDB); the sort is a list of
  (field, direction) pairs with direction 1/-1 or "ASC"/"DESC"; the projection is
  absent, a list of columns (SQLite) or a dict (MongoDB); the limit is an integer.
\<close>

datatype query = QNone | QWhere string | QFilter document

datatype direction = DirInt int | DirStr string

type_synonym sort_spec = "(string \<times> direction) list option"

datatype projection = PNone | PColumns "string list" | PFields document

text \<open>
  What the class relies on and does not contain. For the relational store: the exception
  of \<^verbatim>\<open>sqlite3.connect\<close> when the file of a database name cannot be opened; the table of
  the collection's name that the file already holds, with its rows, when it holds one
  (written as a table of TEXT and REAL columns with NOT NULL marks and one primary key;
  a table with other features is outside this model); the exception SQLite raises for
  the CREATE TABLE statement when it does not accept it, as for a table name that is a
  reserved word or no name at all; the two conversions of the engine; and SQLite's
  evaluation of a SELECT statement (an exception, or the column names of
  \<^verbatim>\<open>cursor.description\<close> and the rows of \<^verbatim>\<open>fetchall\<close>). For the document store: the
  collection that \<^verbatim>\<open>MongoClient(uri)\<close> leads to (or the exception of an unusable URI) and
  MongoDB's evaluation of a cursor. And Python's \<^verbatim>\<open>str\<close> of a dict.
\<close>

record env =
  connect_error :: "string \<Rightarrow> exn option"
  existing_table :: "(create_table \<times> sqlrow list) option"
  schema_error :: "create_table \<Rightarrow> exn option"
  sqlite_text_of_real :: "64 word \<Rightarrow> string"
  sqlite_real_of_text :: "string \<Rightarrow> 64 word option"
  mongo_client :: "string \<Rightarrow> exn + mongo_collection"
  sql_select :: "string \<Rightarrow> sqlite_db \<Rightarrow> exn + (string list \<times> row list)"
  mongo_find ::
    "mongo_collection \<Rightarrow> query \<Rightarrow> projection \<Rightarrow> sort_spec \<Rightarrow> int option
       \<Rightarrow> exn + document list"
  str_of_dict :: "document \<Rightarrow> string"

subsection \<open>Python's truth values\<close>

fun query_truthy :: "query \<Rightarrow> bool" where
  "query_truthy QNone = False"
| "query_truthy (QWhere w) = (w \<noteq> [])"
| "query_truthy (QFilter d) = (d \<noteq> [])"

fun projection_truthy :: "projection \<Rightarrow> bool" where
  "projection_truthy PNone = False"
| "projection_truthy (PColumns cs) = (cs \<noteq> [])"
| "projection_truthy (PFields d) = (d \<noteq> [])"

fun sort_truthy :: "sort_spec \<Rightarrow> bool" where
  "sort_truthy None = False"
| "sort_truthy (Some ps) = (ps \<noteq> [])"

fun limit_truthy :: "int option \<Rightarrow> bool" where
  "limit_truthy None = False"
| "limit_truthy (Some n) = (n \<noteq> 0)"

text \<open>\<^verbatim>\<open>sep.join(items)\<close>\<close>

fun join :: "string \<Rightarrow> string list \<Rightarrow> string" where
  "join sep [] = []"
| "join sep [x] = x"
| "join sep (x # y # ys) = x @ sep @ join sep (y # ys)"

subsection \<open>\<^verbatim>\<open>_find_sqlite\<close>: the statement\<close>

text \<open>
  The four clauses and the statement they are put into. The source tests each argument
  for truth, so an empty string, list or dict and a limit of 0 count as absent.
  Iterating a dict yields its keys, so a dict projection joins its keys.
\<close>

definition select_columns :: "projection \<Rightarrow> string" where
  "select_columns projection =
     (if projection_truthy projection then
        (case projection of
           PColumns cs \<Rightarrow> join '', '' cs
         | PFields d \<Rightarrow> join '', '' (map fst d)
         | PNone \<Rightarrow> [])
      else ''*'')"

definition where_clause :: "env \<Rightarrow> query \<Rightarrow> string" where
  "where_clause e query =
     (if query_truthy query then
        ''WHERE '' @ (case query of QWhere w \<Rightarrow> w | QFilter d \<Rightarrow> str_of_dict e d | QNone \<Rightarrow> [])
      else [])"

definition dir_str :: "direction \<Rightarrow> string" where
  "dir_str direction =
     (if direction = DirInt (- 1) \<or> direction = DirStr ''DESC'' then ''DESC'' else ''ASC'')"

definition order_by_clause :: "sort_spec \<Rightarrow> string" where
  "order_by_clause sort' =
     (if sort_truthy sort' then
        ''ORDER BY ''
          @ join '', '' (map (\<lambda>(field, direction). field @ '' '' @ dir_str direction)
                            (case sort' of Some ps \<Rightarrow> ps | None \<Rightarrow> []))
      else [])"

definition limit_clause :: "int option \<Rightarrow> string" where
  "limit_clause limit =
     (if limit_truthy limit then
        ''LIMIT '' @ (case limit of Some n \<Rightarrow> str_int n | None \<Rightarrow> [])
      else [])"

definition query_str ::
  "env \<Rightarrow> string \<Rightarrow> query \<Rightarrow> sort_spec \<Rightarrow> projection \<Rightarrow> int option \<Rightarrow> string" where
  "query_str e collection_name' query sort' projection limit =
     ''SELECT '' @ select_columns projection @ '' FROM '' @ collection_name' @ '' ''
       @ where_clause e query @ '' '' @ order_by_clause sort' @ '' '' @ limit_clause limit"

subsection \<open>\<^verbatim>\<open>_find_sqlite\<close>, \<^verbatim>\<open>_find_mongo\<close> and \<^verbatim>\<open>find_records\<close>\<close>

text \<open>
  The statement is executed, the column names are read from the cursor's description,
  and each fetched row becomes \<^verbatim>\<open>dict(zip(columns, row))\<close>. Any exception is printed and
  the result is the empty list.
\<close>

definition find_sqlite ::
  "env \<Rightarrow> db_utils \<Rightarrow> query \<Rightarrow> sort_spec \<Rightarrow> projection \<Rightarrow> int option
     \<Rightarrow> document list \<times> db_utils" where
  "find_sqlite e s query sort' projection limit =
     (case sql_select e (query_str e (collection_name s) query sort' projection limit) (conn s) of
        Inl err \<Rightarrow> ([], emit [Sqlite ExecuteSelect, Print (SqliteFindError err)] s)
      | Inr (columns, rows) \<Rightarrow>
          (map (\<lambda>row. py_dict (zip columns row)) rows,
           emit [Sqlite ExecuteSelect, Sqlite FetchAll] s))"

text \<open>
  An absent query becomes the empty filter; \<^verbatim>\<open>sort\<close> and \<^verbatim>\<open>limit\<close> are applied to the
  cursor only when truthy; the cursor is evaluated by \<^verbatim>\<open>list(cursor)\<close>. Any exception is
  printed and the result is the empty list.
\<close>

definition find_mongo ::
  "env \<Rightarrow> db_utils \<Rightarrow> query \<Rightarrow> sort_spec \<Rightarrow> projection \<Rightarrow> int option
     \<Rightarrow> document list \<times> db_utils" where
  "find_mongo e s query sort' projection limit =
     (let query' = (if query = QNone then QFilter [] else query) in
      case collection s of
        None \<Rightarrow> ([], emit [Print (MongoFindError (AttributeError ''collection''))] s)
      | Some c \<Rightarrow>
          (case mongo_find e c query' projection
                  (if sort_truthy sort' then sort' else None)
                  (if limit_truthy limit then limit else None) of
             Inl err \<Rightarrow> ([], emit [Mongo Find, Print (MongoFindError err)] s)
           | Inr docs \<Rightarrow> (docs, emit [Mongo Find] s)))"

definition find_records ::
  "env \<Rightarrow> db_utils \<Rightarrow> query \<Rightarrow> sort_spec \<Rightarrow> projection \<Rightarrow> int option
     \<Rightarrow> exn + (document list \<times> db_utils)" where
  "find_records e s query sort' projection limit =
     (if mode s = ''aux'' \<or> mode s = ''main'' then
        (case collection s of
           Some c \<Rightarrow> Inr (find_mongo e s query sort' projection limit)
         | None \<Rightarrow> Inr (find_sqlite e s query sort' projection limit))
      else Inl (ValueError ''Invalid database mode''))"

section \<open>Construction\<close>

text \<open>
  \<^verbatim>\<open>__create_sqlite_db\<close> connects, then executes \<^verbatim>\<open>self.sql_schema\<close> and two PRAGMAs. The
  connection may fail; when \<^verbatim>\<open>__set_mode_specifics\<close> has set no schema, reading the
  attribute raises AttributeError; SQLite may refuse the statement. The statement is
  CREATE TABLE IF NOT EXISTS: a table the file already holds stays as it is.
\<close>

definition create_sqlite_db ::
  "env \<Rightarrow> string \<Rightarrow> create_table option \<Rightarrow> (exn \<times> event list) + (sqlite_db \<times> event list)" where
  "create_sqlite_db e db_name' schema =
     (case connect_error e db_name' of
        Some err \<Rightarrow> Inl (err, [Sqlite Connect])
      | None \<Rightarrow>
          (case schema of
             None \<Rightarrow> Inl (AttributeError ''sql_schema'', [Sqlite Connect])
           | Some td \<Rightarrow>
               (case schema_error e td of
                  Some err \<Rightarrow> Inl (err, [Sqlite Connect, Sqlite ExecuteSchema])
                | None \<Rightarrow>
                    Inr (\<lparr>table_def = (case existing_table e of
                                         None \<Rightarrow> td
                                       | Some (td', rows) \<Rightarrow> td'),
                          committed = (case existing_table e of
                                         None \<Rightarrow> []
                                       | Some (td', rows) \<Rightarrow> rows),
                          pending = (case existing_table e of
                                       None \<Rightarrow> []
                                     | Some (td', rows) \<Rightarrow> rows),
                          text_of_real = sqlite_text_of_real e,
                          real_of_text = sqlite_real_of_text e\<rparr>,
                         [Sqlite Connect, Sqlite ExecuteSchema, Sqlite ExecutePragma,
                          Sqlite ExecutePragma]))))"

text \<open>
  \<^verbatim>\<open>__create_mongo_db\<close>: a falsy URI (\<^verbatim>\<open>None\<close> or the empty string) raises ValueError; an
  exception of the client or of the ping is printed and raised again.
\<close>

definition create_mongo_db ::
  "env \<Rightarrow> string option \<Rightarrow> (exn \<times> event list) + (mongo_collection \<times> event list)" where
  "create_mongo_db e mongo_uri =
     (case mongo_uri of
        None \<Rightarrow> Inl (ValueError ''MongoDB URI is required for Atlas connection'', [])
      | Some uri \<Rightarrow>
          (if uri = [] then Inl (ValueError ''MongoDB URI is required for Atlas connection'', [])
           else
             (case mongo_client e uri of
                Inl err \<Rightarrow> Inl (err, [Print (MongoConnectionError err)])
              | Inr c \<Rightarrow>
                  (case unavailable c of
                     Some err \<Rightarrow> Inl (err, [Mongo Ping, Print (MongoConnectionError err)])
                   | None \<Rightarrow> Inr (c, [Mongo Ping, Print MongoConnected])))))"

text \<open>
  \<^verbatim>\<open>__init__\<close>: the three steps in the source's order. An exception of a step leaves the
  constructor, and the caller gets no object.
\<close>

definition init ::
  "env \<Rightarrow> string \<Rightarrow> string \<Rightarrow> string \<Rightarrow> string option \<Rightarrow> (exn \<times> event list) + db_utils" where
  "init e db_name' collection_name' mode' mongo_uri =
     (let ms = set_mode_specifics mode' collection_name' in
      case create_sqlite_db e db_name' (map_option ms_sql_schema ms) of
        Inl err \<Rightarrow> Inl err
      | Inr (db, es1) \<Rightarrow>
          (case create_mongo_db e mongo_uri of
             Inl (err, es2) \<Rightarrow> Inl (err, es1 @ es2)
           | Inr (c, es2) \<Rightarrow>
               Inr \<lparr>db_name = db_name', collection_name = collection_name', mode = mode',
                    sql_schema = map_option ms_sql_schema ms,
                    sql_insert_cmd = map_option ms_sql_insert_cmd ms,
                    mongo_data_dict = map_option ms_mongo_data_dict ms,
                    conn = db, collection = Some c, trace = es1 @ es2\<rparr>))"

section \<open>Instances that construction produces\<close>

text \<open>
  What \<^verbatim>\<open>__init__\<close> establishes and every method keeps: the mode is one of the two, the
  three schema attributes are the ones of that mode, the table was created from that
  schema, no transaction is open between two calls, and \<^verbatim>\<open>collection\<close> is set.
\<close>

definition constructed :: "db_utils \<Rightarrow> bool" where
  "constructed s =
     (case set_mode_specifics (mode s) (collection_name s) of
        None \<Rightarrow> False
      | Some ms \<Rightarrow>
          sql_schema s = Some (ms_sql_schema ms)
          \<and> sql_insert_cmd s = Some (ms_sql_insert_cmd ms)
          \<and> mongo_data_dict s = Some (ms_mongo_data_dict ms)
          \<and> table_def (conn s) = ms_sql_schema ms
          \<and> pending (conn s) = committed (conn s)
          \<and> collection s \<noteq> None)"

text \<open>The instance after a call of \<^verbatim>\<open>push_to_sqlite_db\<close> (as it was, when the call raises).\<close>

definition after_push :: "db_utils \<Rightarrow> row \<Rightarrow> db_utils" where
  "after_push s data = (case push_to_sqlite_db s data of Inr (r, s') \<Rightarrow> s' | Inl e \<Rightarrow> s)"

section \<open>Concrete runs\<close>

text \<open>
  A stand-in for the environment, used for the concrete runs only; the general theorems
  hold for every environment.
  \<^item> Files: a database name without a slash opens a new file; one with a slash names a
    directory that does not exist.
  \<^item> Table names: a bare name of ASCII letters, digits, underscores and dollars that
    starts with a letter or an underscore is accepted unless it is one of SQLite's
    reserved words or starts with \<^verbatim>\<open>sqlite_\<close>; anything else is refused (SQLite itself
    also takes quoted and qualified names, which the stand-in does not know).
  \<^item> Conversions: the stand-in knows the three rates of the runs below.
  \<^item> SELECT: the unfiltered statement on \<^verbatim>\<open>rates\<close> is answered, any other text refused.
  \<^item> URIs: \<^verbatim>\<open>mongodb://atlas\<close> is a server that is up; a text with a slash that is no
    \<^verbatim>\<open>mongodb://\<close> URI is refused by the client (a \<^verbatim>\<open>mongodb+srv://\<close> URI for want of a
    DNS answer); any other text is a host that does not answer the ping (the driver
    also refuses some texts that the stand-in takes for a host, such as one with a
    port that is no number).
  \<^item> Documents: a filter dict is matched field by field, anything that is not a dict
    is refused.
\<close>

definition reserved_words :: "string list" where
  "reserved_words =
     [''add'', ''all'', ''alter'', ''and'', ''as'', ''autoincrement'', ''between'', ''case'',
      ''check'', ''collate'', ''commit'', ''constraint'', ''create'', ''default'',
      ''deferrable'', ''delete'', ''distinct'', ''drop'', ''else'', ''escape'', ''except'',
      ''exists'', ''foreign'', ''from'', ''group'', ''having'', ''if'', ''in'', ''index'',
      ''insert'', ''intersect'', ''into'', ''is'', ''isnull'', ''join'', ''limit'', ''not'',
      ''nothing'', ''notnull'', ''null'', ''on'', ''or'', ''order'', ''primary'',
      ''references'', ''returning'', ''select'', ''set'', ''table'', ''then'', ''to'',
      ''transaction'', ''union'', ''unique'', ''update'', ''using'', ''values'', ''when'',
      ''where'']"

definition bare_name :: "string \<Rightarrow> bool" where
  "bare_name n =
     (case n of
        [] \<Rightarrow> False
      | c # cs \<Rightarrow>
          c \<in> set ''abcdefghijklmnopqrstuvwxyz_''
          \<and> list_all (\<lambda>d. d \<in> set ''abcdefghijklmnopqrstuvwxyz_0123456789$'') cs)"

definition example_schema_error :: "create_table \<Rightarrow> exn option" where
  "example_schema_error td =
     (let n = sql_lower (tbl td) in
      if n = ''if'' then Some DatabaseError
      else if \<not> bare_name n \<or> n \<in> set reserved_words \<or> take 7 n = ''sqlite_''
        then Some OperationalError
      else None)"

definition example_mongo_client :: "string \<Rightarrow> exn + mongo_collection" where
  "example_mongo_client uri =
     (if uri = ''mongodb://atlas'' then Inr \<lparr>unavailable = None, documents = []\<rparr>
      else if take 14 uri = ''mongodb+srv://'' then Inl (PyMongoError ''ConfigurationError'')
      else if CHR ''/'' \<in> set uri \<and> take 10 uri \<noteq> ''mongodb://''
        then Inl (PyMongoError ''InvalidURI'')
      else Inr \<lparr>unavailable = Some (PyMongoError ''ServerSelectionTimeoutError''),
                documents = []\<rparr>)"

definition example_env :: env where
  "example_env =
     \<lparr>connect_error = (\<lambda>n. if CHR ''/'' \<in> set n then Some OperationalError else None),
      existing_table = None,
      schema_error = example_schema_error,
      sqlite_text_of_real =
        (\<lambda>w. if w = 0x4059000000000000 then ''100.0''
              else if w = 0x405A400000000000 then ''105.0''
              else if w = 0x40A3880000000000 then ''2500.0''
              else []),
      sqlite_real_of_text =
        (\<lambda>t. if t = ''100.0'' then Some 0x4059000000000000
              else if t = ''105.0'' then Some 0x405A400000000000
              else if t = ''2500.0'' then Some 0x40A3880000000000
              else None),
      mongo_client = example_mongo_client,
      sql_select =
        (\<lambda>stmt db. if stmt = ''SELECT * FROM rates   ''
                    then Inr ([''timestamp'', ''currency'', ''rate''],
                              map (map py_of_sql) (pending db))
                    else Inl OperationalError),
      mongo_find =
        (\<lambda>c q p so l. case q of
             QFilter d \<Rightarrow> Inr (filter (\<lambda>doc. list_all (\<lambda>kv. kv \<in> set doc) d) (documents c))
           | _ \<Rightarrow> Inl (PyMongoError ''filter must be an instance of dict'')),
      str_of_dict = (\<lambda>d. ''{...}'')\<rparr>"

text \<open>The instance \<^verbatim>\<open>DB_Utils('forex', 'rates', 'aux', 'mongodb://atlas')\<close>, its trace emptied.\<close>

definition aux_instance :: db_utils where
  "aux_instance =
     \<lparr>db_name = ''forex'', collection_name = ''rates'', mode = ''aux'',
      sql_schema =
        Some (CreateTableIfNotExists ''rates'' aux_columns [''timestamp'', ''currency'']),
      sql_insert_cmd = Some (InsertInto ''rates'' [''timestamp'', ''currency'', ''rate'']),
      mongo_data_dict =
        Some [(''timestamp'', PyNone), (''currency'', PyNone), (''rate'', PyNone)],
      conn = \<lparr>table_def =
                 CreateTableIfNotExists ''rates'' aux_columns [''timestamp'', ''currency''],
               committed = [], pending = [],
               text_of_real = sqlite_text_of_real example_env,
               real_of_text = sqlite_real_of_text example_env\<rparr>,
      collection = Some \<lparr>unavailable = None, documents = []\<rparr>,
      trace = []\<rparr>"

text \<open>
  Three hourly observations, with 100.0, 105.0 and 2500.0 as bit patterns, and what the
  table stores for them.
\<close>

definition btc_100 :: row where
  "btc_100 = [PyStr ''2024-01-01 00:00'', PyStr ''BTC'', PyFloat 0x4059000000000000]"

definition btc_105 :: row where
  "btc_105 = [PyStr ''2024-01-01 00:00'', PyStr ''BTC'', PyFloat 0x405A400000000000]"

definition eth_2500 :: row where
  "eth_2500 = [PyStr ''2024-01-01 00:00'', PyStr ''ETH'', PyFloat 0x40A3880000000000]"

definition btc_100_row :: sqlrow where
  "btc_100_row = [SqlText ''2024-01-01 00:00'', SqlText ''BTC'', SqlReal 0x4059000000000000]"

definition eth_2500_row :: sqlrow where
  "eth_2500_row = [SqlText ''2024-01-01 00:00'', SqlText ''ETH'', SqlReal 0x40A3880000000000]"

section \<open>The lock discipline\<close>

text \<open>
  A trace keeps to the lock discipline when every call on the relational store falls
  between an acquisition of \<^verbatim>\<open>sql_lock\<close> and its release. \<open>held\<close> tells whether the lock
  is held where the trace starts.
\<close>

fun lock_guarded :: "bool \<Rightarrow> event list \<Rightarrow> bool" where
  "lock_guarded held [] = True"
| "lock_guarded held (Acquire SqlLock # es) = lock_guarded True es"
| "lock_guarded held (Release SqlLock # es) = lock_guarded False es"
| "lock_guarded held (Sqlite call # es) = (held \<and> lock_guarded held es)"
| "lock_guarded held (ev # es) = lock_guarded held es"

text \<open>An observation with a key of its own and no rate.\<close>

definition null_rate :: row where
  "null_rate = [PyStr ''2024-01-01 01:00'', PyStr ''ETH'', PyNone]"

section \<open>Properties of the store operations\<close>

subsection \<open>Evaluation on the tables of the two modes\<close>

lemma lower_names [simp]:
  "sql_lower ''timestamp'' = ''timestamp''"
  "sql_lower ''currency'' = ''currency''"
  "sql_lower ''rate'' = ''rate''"
  "sql_lower ''max'' = ''max''"
  "sql_lower ''min'' = ''min''"
  "sql_lower ''max_min'' = ''max_min''"
  "sql_lower ''mean'' = ''mean''"
  "sql_lower ''corr_btc'' = ''corr_btc''"
  "sql_lower ''norm_vol'' = ''norm_vol''"
  "sql_lower ''fd'' = ''fd''"
  "sql_lower ''insert_timestamp'' = ''insert_timestamp''"
  "sql_lower ''rates'' = ''rates''"
  by (simp_all add: sql_lower_def lower_char_def)

lemma apply_affinity_rows [simp]:
  "apply_affinity (db\<lparr>pending := p\<rparr>) a v = apply_affinity db a v"
  "apply_affinity (db\<lparr>committed := c\<rparr>) a v = apply_affinity db a v"
  by (cases a; cases v; simp)+

lemma prepares_rows [simp]:
  "prepares cmd (db\<lparr>pending := p\<rparr>) = prepares cmd db"
  "prepares cmd (db\<lparr>committed := c\<rparr>) = prepares cmd db"
  by (simp_all add: prepares_def)

lemma stored_row_rows [simp]:
  "stored_row cmd vs (db\<lparr>pending := p\<rparr>) = stored_row cmd vs db"
  "stored_row cmd vs (db\<lparr>committed := c\<rparr>) = stored_row cmd vs db"
  by (simp_all add: stored_row_def cong: option.case_cong)

lemma insert_row_rows [simp]:
  "insert_row cmd data (db\<lparr>pending := p\<rparr>) = insert_row cmd data db"
  "insert_row cmd data (db\<lparr>committed := c\<rparr>) = insert_row cmd data db"
  by (simp_all add: insert_row_def cong: sum.case_cong)

lemma acceptable_rows [simp]:
  "acceptable cmd (db\<lparr>pending := p\<rparr>) = acceptable cmd db"
  "acceptable cmd (db\<lparr>committed := c\<rparr>) = acceptable cmd db"
  by (rule ext, simp add: acceptable_def cong: sum.case_cong)+

lemmas aux_eval =
  aux_instance_def aux_columns_def btc_100_def btc_105_def eth_2500_def btc_100_row_def
  eth_2500_row_def insert_row_def prepares_def stored_row_def violates_not_null_def
  collides_def key_of_def cursor_execute_def cursor_executemany_def acceptable_def
  accepted_rows_def is_nan_def normal_real_def emit_def conn_commit_def conn_rollback_def
  constructed_def set_mode_specifics_def

lemma example_schema_rates [simp]:
  "example_schema_error (CreateTableIfNotExists ''rates'' cs k) = None"
  "example_schema_error (CreateTableIfNotExists ''order'' cs k) = Some OperationalError"
  by (simp_all add: example_schema_error_def bare_name_def reserved_words_def
      sql_lower_def lower_char_def)

lemma example_clients [simp]:
  "example_mongo_client ''mongodb://atlas'' = Inr \<lparr>unavailable = None, documents = []\<rparr>"
  "example_mongo_client ''mongodb://down''
     = Inr \<lparr>unavailable = Some (PyMongoError ''ServerSelectionTimeoutError''), documents = []\<rparr>"
  "example_mongo_client ''http://atlas'' = Inl (PyMongoError ''InvalidURI'')"
  by (simp_all add: example_mongo_client_def)

subsection \<open>What a statement does to the connection\<close>

lemma execute_Inr:
  assumes "cursor_execute cmd data db = Inr db1"
  obtains r where "acceptable cmd db data = Some r"
    and "\<not> collides (table_def db) r (pending db)"
    and "db1 = db\<lparr>pending := pending db @ [r]\<rparr>"
  using assms
  by (auto simp: cursor_execute_def acceptable_def split: sum.splits if_splits)

lemma execute_each_Inr:
  "execute_each cmd rs db = Inr db' \<Longrightarrow>
     \<exists>rows. those (map (acceptable cmd db) rs) = Some rows
          \<and> db' = db\<lparr>pending := pending db @ rows\<rparr>"
proof (induction rs arbitrary: db)
  case Nil
  then show ?case by simp
next
  case (Cons r rs)
  from Cons.prems obtain db1 where
    ex: "cursor_execute cmd r db = Inr db1" and many: "execute_each cmd rs db1 = Inr db'"
    by (auto split: sum.splits)
  from ex obtain x where x: "acceptable cmd db r = Some x"
    and db1: "db1 = db\<lparr>pending := pending db @ [x]\<rparr>"
    by (rule execute_Inr)
  from Cons.IH [OF many] db1 obtain rows where
    "those (map (acceptable cmd db) rs) = Some rows"
    "db' = db\<lparr>pending := pending db @ x # rows\<rparr>"
    by auto
  with x show ?case by simp
qed

lemma execute_each_Inl:
  "execute_each cmd rs db = Inl (e, db') \<Longrightarrow> \<exists>p. db' = db\<lparr>pending := p\<rparr>"
proof (induction rs arbitrary: db)
  case Nil
  then show ?case by simp
next
  case (Cons r rs)
  show ?case
  proof (cases "cursor_execute cmd r db")
    case (Inl err)
    with Cons.prems have "db' = db" by simp
    then have "db' = db\<lparr>pending := pending db\<rparr>" by simp
    then show ?thesis by blast
  next
    case (Inr db1)
    with Cons.prems have many: "execute_each cmd rs db1 = Inl (e, db')" by simp
    from Inr obtain x where "db1 = db\<lparr>pending := pending db @ [x]\<rparr>"
      by (rule execute_Inr)
    with Cons.IH [OF many] show ?thesis by auto
  qed
qed

lemma executemany_cases:
  "(\<exists>rows. cursor_executemany cmd rs db = Inr (db\<lparr>pending := pending db @ rows\<rparr>))
   \<or> (\<exists>e p. cursor_executemany cmd rs db = Inl (e, db\<lparr>pending := p\<rparr>))"
proof (cases "prepares cmd db")
  case False
  then have "cursor_executemany cmd rs db = Inl (OperationalError, db\<lparr>pending := pending db\<rparr>)"
    by (simp add: cursor_executemany_def)
  then show ?thesis by blast
next
  case True
  show ?thesis
  proof (cases "execute_each cmd rs db")
    case (Inl p)
    obtain e db' where "p = (e, db')" by (cases p)
    with Inl execute_each_Inl [of cmd rs db e db'] True show ?thesis
      by (auto simp: cursor_executemany_def)
  next
    case (Inr db')
    with execute_each_Inr [OF Inr] True show ?thesis
      by (auto simp: cursor_executemany_def)
  qed
qed

lemma bind_row_error: "bind_row vs = Inl e \<Longrightarrow> e = OverflowError"
proof (induction vs)
  case Nil
  then show ?case by simp
next
  case (Cons v vs)
  then show ?case
    by (cases v) (auto split: sum.splits if_splits)
qed

lemma insert_row_error:
  "insert_row cmd data db = Inl e \<Longrightarrow> e \<noteq> IntegrityError"
  by (auto simp: insert_row_def split: if_splits sum.splits dest: bind_row_error)

lemma insert_row_length:
  "insert_row cmd data db = Inr r \<Longrightarrow> length data = length (ins_fields cmd)"
  by (auto simp: insert_row_def split: if_splits sum.splits)

lemma filter_key_fresh:
  "k \<notin> set (map f rows) \<Longrightarrow> filter (\<lambda>r. f r = k) rows = []"
  by (induction rows) auto

subsection \<open>Constructed instances\<close>

lemma init_success:
  assumes "init e n c m u = Inr s"
  shows "(m = ''aux'' \<or> m = ''main'') \<and> mode s = m \<and> collection_name s = c
         \<and> (\<exists>uri col. u = Some uri \<and> uri \<noteq> [] \<and> mongo_client e uri = Inr col
               \<and> unavailable col = None \<and> collection s = Some col)"
  using assms
  by (auto simp: init_def set_mode_specifics_def create_sqlite_db_def create_mongo_db_def
      Let_def split: option.splits sum.splits if_splits)

lemma init_constructed:
  assumes "init e n c m u = Inr s"
    and "\<forall>td rows. existing_table e = Some (td, rows)
           \<longrightarrow> Some td = map_option ms_sql_schema (set_mode_specifics m c)"
  shows "constructed s"
  using assms
  by (auto simp: init_def constructed_def create_sqlite_db_def create_mongo_db_def
      set_mode_specifics_def Let_def split: option.splits sum.splits if_splits)

lemma constructed_store:
  assumes "constructed s"
  obtains cmd where "sql_insert_cmd s = Some cmd"
    and "prepares cmd (conn s)"
    and "2 \<le> length (ins_fields cmd)"
    and "pk (table_def (conn s)) \<noteq> []"
    and "list_all (\<lambda>c. sql_lower (col_name c) \<in> set (map sql_lower (pk (table_def (conn s))))
                        \<longrightarrow> not_null c) (cols (table_def (conn s)))"
    and "pending (conn s) = committed (conn s)"
proof -
  from assms obtain ms where ms: "set_mode_specifics (mode s) (collection_name s) = Some ms"
    and inv: "sql_insert_cmd s = Some (ms_sql_insert_cmd ms)"
      "table_def (conn s) = ms_sql_schema ms"
      "pending (conn s) = committed (conn s)"
    by (cases "set_mode_specifics (mode s) (collection_name s)") (simp_all add: constructed_def)
  from ms have "mode s = ''aux'' \<or> mode s = ''main''"
    by (auto simp: set_mode_specifics_def split: if_splits)
  then show ?thesis
  proof
    assume "mode s = ''aux''"
    with ms inv show ?thesis
      by (intro that [of "ms_sql_insert_cmd ms"])
        (auto simp: set_mode_specifics_def prepares_def aux_columns_def)
  next
    assume "mode s = ''main''"
    with ms inv show ?thesis
      by (intro that [of "ms_sql_insert_cmd ms"])
        (auto simp: set_mode_specifics_def prepares_def main_columns_def)
  qed
qed

lemma key_no_null:
  assumes "list_all (\<lambda>c. sql_lower (col_name c) \<in> set (map sql_lower (pk td)) \<longrightarrow> not_null c)
             (cols td)"
    and "\<not> violates_not_null td r"
  shows "SqlNull \<notin> set (key_of td r)"
proof
  assume "SqlNull \<in> set (key_of td r)"
  then obtain c where c: "(c, SqlNull) \<in> set (zip (cols td) r)"
    and k: "sql_lower (col_name c) \<in> set (map sql_lower (pk td))"
    by (auto simp: key_of_def)
  from c have "c \<in> set (cols td)" by (rule set_zip_leftD)
  with assms(1) k have "not_null c" by (simp add: list_all_iff)
  with c assms(2) show False
    by (auto simp: violates_not_null_def list_ex_iff)
qed

lemma acceptable_not_null:
  "acceptable cmd db data = Some r \<Longrightarrow> \<not> violates_not_null (table_def db) r"
  by (auto simp: acceptable_def split: sum.splits if_splits)

lemma execute_acceptable:
  assumes "acceptable cmd db data = Some r" and "\<not> collides (table_def db) r (pending db)"
  shows "cursor_execute cmd data db = Inr (db\<lparr>pending := pending db @ [r]\<rparr>)"
  using assms
  by (auto simp: cursor_execute_def acceptable_def split: sum.splits if_splits)

lemma execute_each_accepted:
  assumes "pk (table_def db) \<noteq> []"
    and "list_all (\<lambda>c. sql_lower (col_name c) \<in> set (map sql_lower (pk (table_def db)))
                        \<longrightarrow> not_null c) (cols (table_def db))"
  shows "execute_each cmd rs db = Inr db'
         \<longleftrightarrow> (\<exists>rows. accepted_rows cmd rs db = Some rows
                     \<and> db' = db\<lparr>pending := pending db @ rows\<rparr>)"
  using assms
proof (induction rs arbitrary: db db')
  case Nil
  then show ?case by (auto simp: accepted_rows_def)
next
  case (Cons r rs)
  let ?td = "table_def db"
  show ?case
  proof (cases "acceptable cmd db r")
    case None
    then have "\<exists>e. cursor_execute cmd r db = Inl e"
      by (auto simp: cursor_execute_def acceptable_def split: sum.splits if_splits)
    with None show ?thesis by (auto simp: accepted_rows_def)
  next
    case (Some x)
    from acceptable_not_null [OF Some] Cons.prems(2)
    have nonull: "SqlNull \<notin> set (key_of ?td x)" by (intro key_no_null)
    with Cons.prems(1)
    have coll: "collides ?td x (pending db) \<longleftrightarrow> key_of ?td x \<in> set (map (key_of ?td) (pending db))"
      by (simp add: collides_def)
    show ?thesis
    proof (cases "key_of ?td x \<in> set (map (key_of ?td) (pending db))")
      case True
      with coll Some have "cursor_execute cmd r db = Inl IntegrityError"
        by (auto simp: cursor_execute_def acceptable_def split: sum.splits if_splits)
      with True Some show ?thesis
        by (auto simp: accepted_rows_def split: option.splits)
    next
      case False
      let ?db1 = "db\<lparr>pending := pending db @ [x]\<rparr>"
      from False coll have ex: "cursor_execute cmd r db = Inr ?db1"
        using Some by (intro execute_acceptable) simp_all
      have ih: "execute_each cmd rs ?db1 = Inr db'
         \<longleftrightarrow> (\<exists>rows. accepted_rows cmd rs ?db1 = Some rows
                     \<and> db' = ?db1\<lparr>pending := pending ?db1 @ rows\<rparr>)"
        using Cons.prems by (intro Cons.IH) simp_all
      have acc: "accepted_rows cmd (r # rs) db = Some rows'
                 \<longleftrightarrow> (\<exists>rows. rows' = x # rows \<and> accepted_rows cmd rs ?db1 = Some rows)" for rows'
        using Some False
        by (auto simp: accepted_rows_def list_all_iff image_iff split: option.splits if_splits)
      from ex ih acc show ?thesis by auto
    qed
  qed
qed

lemma constructed_dict:
  assumes "constructed s"
  obtains dd where "mongo_data_dict s = Some dd" and "distinct (map fst dd)"
    and "length dd = length (cols (table_def (conn s)))"
  using assms
  by (auto simp: constructed_def set_mode_specifics_def aux_columns_def main_columns_def
      split: option.splits if_splits)

subsection \<open>Dicts built from pairs\<close>

lemma update_fresh:
  "k \<notin> fst ` set al \<Longrightarrow> AList.update k v al = al @ [(k, v)]"
  by (induction al) auto

lemma foldl_update_distinct:
  "distinct (map fst (acc @ ps)) \<Longrightarrow>
     foldl (\<lambda>d (k, v). AList.update k v d) acc ps = acc @ ps"
proof (induction ps arbitrary: acc)
  case Nil
  then show ?case by simp
next
  case (Cons p ps)
  obtain k v where p: "p = (k, v)" by (cases p)
  from Cons.prems p have fresh: "k \<notin> fst ` set acc" by auto
  from Cons.prems p have "distinct (map fst ((acc @ [(k, v)]) @ ps))" by simp
  from Cons.IH [OF this] update_fresh [OF fresh] p show ?case by simp
qed

lemma py_dict_distinct: "distinct (map fst ps) \<Longrightarrow> py_dict ps = ps"
  using foldl_update_distinct [of "[]" ps] by (simp add: py_dict_def)

lemma foldl_update_keys:
  "distinct (map fst acc) \<Longrightarrow>
     distinct (map fst (foldl (\<lambda>d (k, v). AList.update k v d) acc ps))
     \<and> fst ` set (foldl (\<lambda>d (k, v). AList.update k v d) acc ps) = fst ` set acc \<union> fst ` set ps"
proof (induction ps arbitrary: acc)
  case Nil
  then show ?case by simp
next
  case (Cons p ps)
  obtain k v where p: "p = (k, v)" by (cases p)
  from Cons.prems have "distinct (map fst (AList.update k v acc))"
    by (rule distinct_update)
  from Cons.IH [OF this] p show ?case
    by (auto simp: dom_update)
qed

lemma py_dict_keys:
  "distinct (map fst (py_dict ps)) \<and> fst ` set (py_dict ps) = fst ` set ps"
  using foldl_update_keys [of "[]" ps] by (simp add: py_dict_def)

lemma distinct_zip_keys:
  "distinct ks \<Longrightarrow> distinct (map fst (zip ks vs))"
  by (metis distinct_take map_fst_zip_take)

subsection \<open>The characters of a rendered limit\<close>

lemma set_str_nat: "set (str_nat n) \<subseteq> set ''0123456789''"
proof (induction n rule: str_nat.induct)
  case (1 n)
  have digit: "''0123456789'' ! k \<in> set ''0123456789''" if "k < 10" for k
    using that nth_mem [of k "''0123456789''"] by simp
  show ?case
  proof (cases "n < 10")
    case True
    with digit [of n] show ?thesis by (subst str_nat.simps) simp
  next
    case False
    with "1" digit [of "n mod 10"] show ?thesis by (subst str_nat.simps) auto
  qed
qed

lemma str_nat_no_W: "CHR ''W'' \<notin> set (str_nat n)"
proof -
  have "CHR ''W'' \<notin> set ''0123456789''" by simp
  with set_str_nat [of n] show ?thesis by blast
qed

lemma limit_clause_no_W: "CHR ''W'' \<notin> set (limit_clause l)"
  by (cases l) (simp_all add: limit_clause_def str_int_def str_nat_no_W)

subsection \<open>Every method keeps an instance constructed\<close>

lemma constructed_emit:
  "constructed s \<Longrightarrow> constructed (emit es s)"
  by (cases "set_mode_specifics (mode s) (collection_name s)")
    (simp_all add: constructed_def emit_def)

lemma constructed_collection:
  "constructed s \<Longrightarrow> constructed (s\<lparr>collection := Some c\<rparr>)"
  by (cases "set_mode_specifics (mode s) (collection_name s)") (simp_all add: constructed_def)

lemma constructed_conn:
  assumes "constructed s"
    and "table_def db = table_def (conn s)" and "pending db = committed db"
  shows "constructed (s\<lparr>conn := db\<rparr>)"
  using assms
  by (cases "set_mode_specifics (mode s) (collection_name s)") (simp_all add: constructed_def)

lemma constructed_push_to_sqlite_db:
  assumes "constructed s" and "push_to_sqlite_db s data = Inr (r, s')"
  shows "constructed s'"
proof (cases "sql_insert_cmd s")
  case None
  with assms show ?thesis
    by (auto simp: push_to_sqlite_db_def constructed_emit)
next
  case (Some cmd)
  show ?thesis
  proof (cases "cursor_execute cmd data (conn s)")
    case (Inl e)
    with assms(2) Some have "s' = emit [Sqlite Execute, Print (SqliteInsertError e)] s
        \<or> s' = emit [Sqlite Execute, Print (DuplicateEntryDetected (data ! 0) (data ! 1))] s"
      by (cases e) (simp_all add: push_to_sqlite_db_def split: if_splits)
    with assms(1) show ?thesis by (auto simp: constructed_emit)
  next
    case (Inr db')
    from Inr obtain r where db': "db' = (conn s)\<lparr>pending := pending (conn s) @ [r]\<rparr>"
      by (rule execute_Inr)
    from assms(2) Some Inr
    have s': "s' = emit [Sqlite Execute, Sqlite Commit] (s\<lparr>conn := conn_commit db'\<rparr>)"
      by (simp add: push_to_sqlite_db_def)
    have "constructed (s\<lparr>conn := conn_commit db'\<rparr>)"
      using assms(1) by (rule constructed_conn) (simp_all add: db' conn_commit_def)
    with s' show ?thesis by (simp add: constructed_emit)
  qed
qed

lemma constructed_bulk_insert_sqlite:
  assumes "constructed s"
  shows "constructed (snd (bulk_insert_sqlite s records))"
proof (cases "sql_insert_cmd s")
  case None
  have "constructed (s\<lparr>conn := conn_rollback (conn s)\<rparr>)"
    using assms by (rule constructed_conn) (simp_all add: conn_rollback_def)
  with None show ?thesis
    by (simp add: bulk_insert_sqlite_def constructed_emit)
next
  case (Some cmd)
  from executemany_cases [of cmd records "conn s"] show ?thesis
  proof (elim disjE exE)
    fix rows
    assume r: "cursor_executemany cmd records (conn s)
                 = Inr ((conn s)\<lparr>pending := pending (conn s) @ rows\<rparr>)"
    have "constructed (s\<lparr>conn := conn_commit ((conn s)\<lparr>pending := pending (conn s) @ rows\<rparr>)\<rparr>)"
      using assms by (rule constructed_conn) (simp_all add: conn_commit_def)
    with Some r show ?thesis
      by (simp add: bulk_insert_sqlite_def constructed_emit)
  next
    fix e p
    assume l: "cursor_executemany cmd records (conn s) = Inl (e, (conn s)\<lparr>pending := p\<rparr>)"
    have "constructed (s\<lparr>conn := conn_rollback ((conn s)\<lparr>pending := p\<rparr>)\<rparr>)"
      using assms by (rule constructed_conn) (simp_all add: conn_rollback_def)
    with Some l show ?thesis
      by (simp add: bulk_insert_sqlite_def constructed_emit)
  qed
qed

lemma constructed_push_to_mongo_db:
  assumes "constructed s"
  shows "constructed (snd (push_to_mongo_db s data))"
  using assms
  by (simp add: push_to_mongo_db_def Let_def constructed_emit constructed_collection
      split: option.splits sum.splits)

lemma constructed_bulk_insert_mongo:
  assumes "constructed s"
  shows "constructed (snd (bulk_insert_mongo s docs))"
  using assms
  by (simp add: bulk_insert_mongo_def constructed_emit constructed_collection
      split: option.splits sum.splits)

lemma constructed_find_mongo:
  assumes "constructed s"
  shows "constructed (snd (find_mongo e s q so p l))"
  using assms
  by (simp add: find_mongo_def Let_def constructed_emit split: option.splits sum.splits)

lemma constructed_find_records:
  assumes "constructed s"
  shows "find_records e s q so p l = Inr (find_mongo e s q so p l)"
proof -
  from assms obtain ms where "set_mode_specifics (mode s) (collection_name s) = Some ms"
    and "collection s \<noteq> None"
    by (cases "set_mode_specifics (mode s) (collection_name s)") (simp_all add: constructed_def)
  then have "mode s = ''aux'' \<or> mode s = ''main''" and "\<exists>col. collection s = Some col"
    by (auto simp: set_mode_specifics_def split: if_splits)
  then show ?thesis by (auto simp: find_records_def)
qed

subsection \<open>The batches that go through\<close>

lemma bulk_insert_sqlite_exact:
  assumes "constructed s" and "sql_insert_cmd s = Some cmd"
  shows "(accepted_rows cmd records (conn s) = Some rows \<longrightarrow>
            bulk_insert_sqlite s records
              = (True,
                 emit [Acquire SqlLock, Sqlite ExecuteMany, Sqlite Commit, Release SqlLock]
                   (s\<lparr>conn := (conn s)\<lparr>pending := committed (conn s) @ rows,
                                        committed := committed (conn s) @ rows\<rparr>\<rparr>)))
         \<and> (accepted_rows cmd records (conn s) = None \<longrightarrow>
              (\<exists>err. bulk_insert_sqlite s records
                       = (False,
                          emit [Acquire SqlLock, Sqlite ExecuteMany,
                                Print (SqliteBulkInsertError err), Sqlite Rollback,
                                Release SqlLock] s)))"
proof -
  from assms obtain prep: "prepares cmd (conn s)"
    and pk: "pk (table_def (conn s)) \<noteq> []"
    and nn: "list_all (\<lambda>c. sql_lower (col_name c) \<in> set (map sql_lower (pk (table_def (conn s))))
                        \<longrightarrow> not_null c) (cols (table_def (conn s)))"
    and closed: "pending (conn s) = committed (conn s)"
    by (auto elim: constructed_store)
  note iff = execute_each_accepted [OF pk nn, of cmd records]
  have many: "cursor_executemany cmd records (conn s) = execute_each cmd records (conn s)"
    using prep by (simp add: cursor_executemany_def)
  have good: "bulk_insert_sqlite s records
              = (True,
                 emit [Acquire SqlLock, Sqlite ExecuteMany, Sqlite Commit, Release SqlLock]
                   (s\<lparr>conn := (conn s)\<lparr>pending := committed (conn s) @ rows,
                                        committed := committed (conn s) @ rows\<rparr>\<rparr>))"
    if "accepted_rows cmd records (conn s) = Some rows"
  proof -
    from that iff have "execute_each cmd records (conn s)
                          = Inr ((conn s)\<lparr>pending := pending (conn s) @ rows\<rparr>)"
      by blast
    with many assms(2) closed show ?thesis
      by (simp add: bulk_insert_sqlite_def conn_commit_def)
  qed
  have bad: "\<exists>err. bulk_insert_sqlite s records
                       = (False,
                          emit [Acquire SqlLock, Sqlite ExecuteMany,
                                Print (SqliteBulkInsertError err), Sqlite Rollback,
                                Release SqlLock] s)"
    if "accepted_rows cmd records (conn s) = None"
  proof (cases "execute_each cmd records (conn s)")
    case (Inr db')
    with iff that show ?thesis by auto
  next
    case (Inl p)
    obtain e db' where p: "p = (e, db')" by (cases p)
    from execute_each_Inl [of cmd records "conn s" e db'] Inl p
    obtain q where "db' = (conn s)\<lparr>pending := q\<rparr>" by auto
    then have "conn_rollback db' = conn s"
      using closed by (simp add: conn_rollback_def)
    with many assms(2) Inl p
    have "bulk_insert_sqlite s records
            = (False,
               emit [Acquire SqlLock, Sqlite ExecuteMany,
                     Print (SqliteBulkInsertError e), Sqlite Rollback,
                     Release SqlLock] s)"
      by (simp add: bulk_insert_sqlite_def)
    then show ?thesis by blast
  qed
  from good bad show ?thesis by blast
qed

section \<open>Single insert into the relational store\<close>

text \<open>
  Claim C1, as amended. On a constructed instance, whose table is the one of its mode,
  let SQLite accept a record on its own (it has the statement's number of values, each
  of them can be bound, and the row they make has no NULL in a NOT NULL column), and
  let the primary key of the row it makes be new. Let a second record be such that the
  row its values make, when they can be bound, has that same key after SQLite's
  conversions. The first \<^verbatim>\<open>push_to_sqlite_db\<close> stores the row. The second raises nothing
  and leaves the connection as it was, so that the table holds exactly one row of that
  key, the original one; it prints the line "Duplicate entry detected" with the first
  two values of the rejected record, or the line "SQLite insert error" with the
  exception when the record has another length or a value that cannot be bound. Both
  calls return \<^verbatim>\<open>None\<close>: the duplicate is reported on the console only.
\<close>

theorem push_to_sqlite_db_duplicate:
  assumes "constructed s" and "sql_insert_cmd s = Some cmd"
    and "acceptable cmd (conn s) data = Some r"
    and "key_of (table_def (conn s)) r
           \<notin> set (map (key_of (table_def (conn s))) (committed (conn s)))"
    and "\<forall>r'. insert_row cmd data' (conn s) = Inr r'
           \<longrightarrow> key_of (table_def (conn s)) r' = key_of (table_def (conn s)) r"
  shows "\<exists>s1. push_to_sqlite_db s data = Inr (PyNone, s1)
           \<and> committed (conn s1) = committed (conn s) @ [r]
           \<and> push_to_sqlite_db s1 data'
               = Inr (PyNone,
                      emit [Sqlite Execute,
                            Print (case insert_row cmd data' (conn s) of
                                     Inr r' \<Rightarrow> DuplicateEntryDetected (data' ! 0) (data' ! 1)
                                   | Inl e \<Rightarrow> SqliteInsertError e)] s1)
           \<and> filter (\<lambda>x. key_of (table_def (conn s)) x = key_of (table_def (conn s)) r)
                (committed (conn s1)) = [r]"
proof -
  let ?td = "table_def (conn s)"
  from assms(1,2) obtain two: "2 \<le> length (ins_fields cmd)"
    and pk: "pk ?td \<noteq> []"
    and nn: "list_all (\<lambda>c. sql_lower (col_name c) \<in> set (map sql_lower (pk ?td))
                        \<longrightarrow> not_null c) (cols ?td)"
    and closed: "pending (conn s) = committed (conn s)"
    by (auto elim: constructed_store)
  let ?db1 = "(conn s)\<lparr>pending := pending (conn s) @ [r]\<rparr>"
  let ?s1 = "emit [Sqlite Execute, Sqlite Commit] (s\<lparr>conn := conn_commit ?db1\<rparr>)"
  have "\<not> collides ?td r (pending (conn s))"
    using assms(4) closed by (simp add: collides_def)
  with assms(3) have first: "cursor_execute cmd data (conn s) = Inr ?db1"
    by (rule execute_acceptable)
  have push1: "push_to_sqlite_db s data = Inr (PyNone, ?s1)"
    using assms(2) first by (simp add: push_to_sqlite_db_def)
  have conn1: "conn ?s1 = (conn s)\<lparr>pending := committed (conn s) @ [r],
                                    committed := committed (conn s) @ [r]\<rparr>"
    using closed by (simp add: emit_def conn_commit_def)
  have cmd1: "sql_insert_cmd ?s1 = Some cmd"
    using assms(2) by (simp add: emit_def)
  have row1: "insert_row cmd data' (conn ?s1) = insert_row cmd data' (conn s)"
    by (simp add: conn1)
  have push2: "push_to_sqlite_db ?s1 data'
                 = Inr (PyNone,
                        emit [Sqlite Execute,
                              Print (case insert_row cmd data' (conn s) of
                                       Inr r' \<Rightarrow> DuplicateEntryDetected (data' ! 0) (data' ! 1)
                                     | Inl e \<Rightarrow> SqliteInsertError e)] ?s1)"
  proof (cases "insert_row cmd data' (conn s)")
    case (Inl e)
    with row1 have "cursor_execute cmd data' (conn ?s1) = Inl e"
      by (simp add: cursor_execute_def)
    moreover from Inl have "e \<noteq> IntegrityError" by (rule insert_row_error)
    ultimately show ?thesis
      unfolding push_to_sqlite_db_def cmd1 using Inl by (cases e) simp_all
  next
    case (Inr r')
    with assms(5) have key: "key_of ?td r' = key_of ?td r" by simp
    have "violates_not_null ?td r' \<or> collides ?td r' (pending (conn ?s1))"
    proof (cases "violates_not_null ?td r'")
      case False
      with nn have "SqlNull \<notin> set (key_of ?td r')" by (intro key_no_null)
      with pk key conn1 have "collides ?td r' (pending (conn ?s1))"
        by (simp add: collides_def)
      then show ?thesis ..
    qed simp
    with row1 Inr conn1 have second: "cursor_execute cmd data' (conn ?s1) = Inl IntegrityError"
      by (auto simp: cursor_execute_def)
    from insert_row_length [OF Inr] two have "\<not> length data' < 2" by simp
    with second show ?thesis
      unfolding push_to_sqlite_db_def cmd1 using Inr by simp
  qed
  have one: "filter (\<lambda>x. key_of ?td x = key_of ?td r) (committed (conn ?s1)) = [r]"
    using filter_key_fresh [OF assms(4)] conn1 by simp
  from push1 push2 one conn1 show ?thesis by auto
qed

text \<open>
  C1 on scenario A: \<open>(t1, BTC, 100.0)\<close>, then \<open>(t1, BTC, 105.0)\<close>, on an empty hourly
  table; and the same first record followed by one of the same key whose rate, the int
  \<open>2^63\<close>, cannot be bound.
\<close>

theorem push_to_sqlite_db_duplicate_witness:
  "(\<exists>s1. push_to_sqlite_db aux_instance btc_100 = Inr (PyNone, s1)
           \<and> committed (conn s1) = committed (conn aux_instance) @ [btc_100_row]
           \<and> push_to_sqlite_db s1 btc_105
               = Inr (PyNone,
                      emit [Sqlite Execute,
                            Print (DuplicateEntryDetected (btc_105 ! 0) (btc_105 ! 1))] s1)
           \<and> filter (\<lambda>x. key_of (table_def (conn aux_instance)) x
                            = key_of (table_def (conn aux_instance)) btc_100_row)
                (committed (conn s1)) = [btc_100_row])
   \<and> (\<exists>s1. push_to_sqlite_db aux_instance btc_100 = Inr (PyNone, s1)
           \<and> push_to_sqlite_db s1 [PyStr ''2024-01-01 00:00'', PyStr ''BTC'', PyInt (2 ^ 63)]
               = Inr (PyNone,
                      emit [Sqlite Execute, Print (SqliteInsertError OverflowError)] s1))"
proof -
  let ?cmd = "InsertInto ''rates'' [''timestamp'', ''currency'', ''rate'']"
  let ?big = "[PyStr ''2024-01-01 00:00'', PyStr ''BTC'', PyInt (2 ^ 63)]"
  have c: "constructed aux_instance"
    by (simp add: aux_eval)
  have cmd: "sql_insert_cmd aux_instance = Some ?cmd"
    by (simp add: aux_instance_def)
  have acc: "acceptable ?cmd (conn aux_instance) btc_100 = Some btc_100_row"
    by (simp add: aux_eval)
  have fresh: "key_of (table_def (conn aux_instance)) btc_100_row
                 \<notin> set (map (key_of (table_def (conn aux_instance)))
                          (committed (conn aux_instance)))"
    by (simp add: aux_instance_def)
  have row2: "insert_row ?cmd btc_105 (conn aux_instance)
                = Inr [SqlText ''2024-01-01 00:00'', SqlText ''BTC'',
                       SqlReal 0x405A400000000000]"
    by (simp add: aux_eval)
  have same2: "\<forall>r'. insert_row ?cmd btc_105 (conn aux_instance) = Inr r'
                 \<longrightarrow> key_of (table_def (conn aux_instance)) r'
                       = key_of (table_def (conn aux_instance)) btc_100_row"
    unfolding row2 by (simp add: aux_eval)
  have row3: "insert_row ?cmd ?big (conn aux_instance) = Inl OverflowError"
    by (simp add: aux_eval)
  have same3: "\<forall>r'. insert_row ?cmd ?big (conn aux_instance) = Inr r'
                 \<longrightarrow> key_of (table_def (conn aux_instance)) r'
                       = key_of (table_def (conn aux_instance)) btc_100_row"
    unfolding row3 by simp
  from push_to_sqlite_db_duplicate [OF c cmd acc fresh same2]
    push_to_sqlite_db_duplicate [OF c cmd acc fresh same3]
  show ?thesis
    unfolding row2 row3 by auto
qed

text \<open>
  Claim C1 as stated fails: the second insert hands the caller no duplicate-key result.
  In scenario A it returns what the first, successful insert returned, \<^verbatim>\<open>None\<close>, while
  the table keeps the one original row.
\<close>

theorem push_to_sqlite_db_returns_none:
  "map_sum id fst (push_to_sqlite_db (after_push aux_instance btc_100) btc_105)
     = map_sum id fst (push_to_sqlite_db aux_instance btc_100)
   \<and> map_sum id fst (push_to_sqlite_db aux_instance btc_100) = Inr PyNone
   \<and> committed (conn (after_push (after_push aux_instance btc_100) btc_105)) = [btc_100_row]"
  by (simp add: aux_eval after_push_def push_to_sqlite_db_def)

text \<open>
  The key is the one SQLite stores. A NaN rate is bound as NULL and refused by NOT NULL,
  which the method reports as a duplicate, on an empty table. An int timestamp is
  stored as its text and an int rate as a REAL, so that \<open>(1, BTC, 100)\<close> and
  \<open>('1', BTC, 105.0)\<close> have one key and the second is refused.
\<close>

lemma sqlite_conversions_at_work:
  "push_to_sqlite_db aux_instance
       [PyStr ''2024-01-01 00:00'', PyStr ''BTC'', PyFloat 0x7FF8000000000000]
     = Inr (PyNone,
            emit [Sqlite Execute,
                  Print (DuplicateEntryDetected (PyStr ''2024-01-01 00:00'') (PyStr ''BTC''))]
              aux_instance)"
  "committed (conn (after_push aux_instance [PyInt 1, PyStr ''BTC'', PyInt 100]))
     = [[SqlText ''1'', SqlText ''BTC'', SqlReal 0x4059000000000000]]"
  "push_to_sqlite_db (after_push aux_instance [PyInt 1, PyStr ''BTC'', PyInt 100])
       [PyStr ''1'', PyStr ''BTC'', PyFloat 0x405A400000000000]
     = Inr (PyNone,
            emit [Sqlite Execute, Print (DuplicateEntryDetected (PyStr ''1'') (PyStr ''BTC''))]
              (after_push aux_instance [PyInt 1, PyStr ''BTC'', PyInt 100]))"
  by (simp_all add: aux_eval after_push_def push_to_sqlite_db_def str_int_def str_nat.simps
      real_of_integer_def double_bits_def bit_length.simps Let_def)

section \<open>Batch insert into the relational store\<close>

text \<open>
  Claim C2, as amended. On a constructed instance \<^verbatim>\<open>bulk_insert_sqlite\<close> is
  all-or-nothing, and the batch decides which. When SQLite accepts every record on its
  own, no two records make the same primary key and none makes the key of a stored row
  (\<open>accepted_rows\<close> then gives the rows of the batch), the call answers \<^verbatim>\<open>True\<close> and the
  committed rows are the ones from before followed by the rows of the batch, in order.
  For every other batch the call answers \<^verbatim>\<open>False\<close>, prints the error and leaves the
  connection exactly as it was before the call, so that no row of the batch is stored.
  Either way the statements run under the lock and no transaction stays open. The
  answer is the success flag alone.
\<close>

theorem bulk_insert_sqlite_all_or_nothing:
  assumes "constructed s" and "sql_insert_cmd s = Some cmd"
  shows "(accepted_rows cmd records (conn s) = Some rows \<longrightarrow>
            bulk_insert_sqlite s records
              = (True,
                 emit [Acquire SqlLock, Sqlite ExecuteMany, Sqlite Commit, Release SqlLock]
                   (s\<lparr>conn := (conn s)\<lparr>pending := committed (conn s) @ rows,
                                        committed := committed (conn s) @ rows\<rparr>\<rparr>)))
         \<and> (accepted_rows cmd records (conn s) = None \<longrightarrow>
              (\<exists>err. bulk_insert_sqlite s records
                       = (False,
                          emit [Acquire SqlLock, Sqlite ExecuteMany,
                                Print (SqliteBulkInsertError err), Sqlite Rollback,
                                Release SqlLock] s)))"
  using assms by (rule bulk_insert_sqlite_exact)

text \<open>
  C2 on two batches on an empty hourly table: one whose third record repeats the key
  of the first (rolled back, nothing stored), and one with two distinct keys (both
  stored).
\<close>

theorem bulk_insert_sqlite_all_or_nothing_witness:
  "bulk_insert_sqlite aux_instance [btc_100, eth_2500, btc_105]
     = (False, emit [Acquire SqlLock, Sqlite ExecuteMany,
                     Print (SqliteBulkInsertError IntegrityError),
                     Sqlite Rollback, Release SqlLock] aux_instance)
   \<and> bulk_insert_sqlite aux_instance [btc_100, eth_2500]
     = (True,
        emit [Acquire SqlLock, Sqlite ExecuteMany, Sqlite Commit, Release SqlLock]
          (aux_instance\<lparr>conn := (conn aux_instance)\<lparr>pending := [btc_100_row, eth_2500_row],
                                                     committed := [btc_100_row, eth_2500_row]\<rparr>\<rparr>))"
  using bulk_insert_sqlite_all_or_nothing
          [of aux_instance "InsertInto ''rates'' [''timestamp'', ''currency'', ''rate'']"
              "[btc_100, eth_2500, btc_105]" "[]"]
        bulk_insert_sqlite_all_or_nothing
          [of aux_instance "InsertInto ''rates'' [''timestamp'', ''currency'', ''rate'']"
              "[btc_100, eth_2500]" "[btc_100_row, eth_2500_row]"]
  by (simp add: aux_eval bulk_insert_sqlite_def)

text \<open>
  Claim C2 as stated fails: the call returns no inserted count. A batch of one record
  and a batch of two, both stored in full, return the same value.
\<close>

theorem bulk_insert_sqlite_no_inserted_count:
  "fst (bulk_insert_sqlite aux_instance [btc_100])
     = fst (bulk_insert_sqlite aux_instance [btc_100, eth_2500])
   \<and> length (committed (conn (snd (bulk_insert_sqlite aux_instance [btc_100])))) = 1
   \<and> length (committed (conn (snd (bulk_insert_sqlite aux_instance [btc_100, eth_2500])))) = 2"
  by (simp add: aux_eval bulk_insert_sqlite_def)

section \<open>Which writes take the lock\<close>

text \<open>
  Claim C3 fails on the code. \<^verbatim>\<open>bulk_insert_sqlite\<close> works under \<^verbatim>\<open>sql_lock\<close>, also when
  the batch is rolled back, but \<^verbatim>\<open>push_to_sqlite_db\<close> executes and commits without
  taking it, and so does the schema creation of the constructor.
\<close>

theorem single_insert_takes_no_lock:
  "\<not> lock_guarded False (trace (after_push aux_instance btc_100))
   \<and> (case init example_env ''forex'' ''rates'' ''aux'' (Some ''mongodb://atlas'') of
        Inr s \<Rightarrow> \<not> lock_guarded False (trace s)
      | Inl err \<Rightarrow> False)
   \<and> lock_guarded False (trace (snd (bulk_insert_sqlite aux_instance [btc_100])))
   \<and> lock_guarded False (trace (snd (bulk_insert_sqlite aux_instance [btc_100, btc_105])))"
  by (simp add: aux_eval after_push_def push_to_sqlite_db_def bulk_insert_sqlite_def
      init_def create_sqlite_db_def create_mongo_db_def example_env_def Let_def)

text \<open>The same for every record of two values or more, on any instance with an empty trace.\<close>

lemma push_never_guarded:
  assumes "sql_insert_cmd s = Some cmd" and "trace s = []" and "2 \<le> length data"
  shows "\<not> lock_guarded False (trace (after_push s data))"
  using assms
  by (auto simp: after_push_def push_to_sqlite_db_def emit_def
      split: sum.splits exn.splits if_splits)

text \<open>
  What the missing lock allows. One thread is between the two statements of
  \<^verbatim>\<open>push_to_sqlite_db\<close>: its row is inserted and not yet committed. Another thread runs
  \<^verbatim>\<open>bulk_insert_sqlite\<close> on a batch that fails; its rollback discards the open
  transaction of the shared connection, the first thread's row with it. The first
  thread's commit then commits nothing, and its call ends without an error.
\<close>

lemma unlocked_push_loses_row:
  "cursor_execute (InsertInto ''rates'' [''timestamp'', ''currency'', ''rate'']) btc_100
     (conn aux_instance) = Inr ((conn aux_instance)\<lparr>pending := [btc_100_row]\<rparr>)
   \<and> bulk_insert_sqlite
       (aux_instance\<lparr>conn := (conn aux_instance)\<lparr>pending := [btc_100_row]\<rparr>\<rparr>) [null_rate]
     = (False,
        emit [Acquire SqlLock, Sqlite ExecuteMany, Print (SqliteBulkInsertError IntegrityError),
              Sqlite Rollback, Release SqlLock] aux_instance)
   \<and> committed (conn_commit (conn aux_instance)) = []"
  by (simp add: aux_eval bulk_insert_sqlite_def null_rate_def)

section \<open>An unknown mode\<close>

text \<open>
  Claim C4 fails on the code. With a mode other than \<^verbatim>\<open>aux\<close> and \<^verbatim>\<open>main\<close>,
  \<^verbatim>\<open>__set_mode_specifics\<close> sets nothing and returns; the constructor then opens the
  database and fails with AttributeError when it reads the schema that was never set.
\<close>

lemma init_unknown_mode:
  assumes "m \<noteq> ''aux''" and "m \<noteq> ''main''" and "connect_error e n = None"
  shows "init e n c m u = Inl (AttributeError ''sql_schema'', [Sqlite Connect])"
  using assms by (simp add: init_def set_mode_specifics_def create_sqlite_db_def Let_def)

text \<open>
  C4 at the mode \<^verbatim>\<open>daily\<close>: construction ends in that AttributeError, whereas
  \<^verbatim>\<open>find_records\<close> answers the same mode with its own ValueError "Invalid database mode".
\<close>

theorem init_unknown_mode_attribute_error:
  "init example_env ''forex'' ''rates'' ''daily'' (Some ''mongodb://atlas'')
     = Inl (AttributeError ''sql_schema'', [Sqlite Connect])
   \<and> find_records example_env (aux_instance\<lparr>mode := ''daily''\<rparr>) QNone None PNone None
     = Inl (ValueError ''Invalid database mode'')"
  by (simp add: init_def set_mode_specifics_def create_sqlite_db_def find_records_def
      aux_instance_def example_env_def Let_def)

section \<open>The statement of a relational query\<close>

text \<open>
  Claim C5. In the statement \<^verbatim>\<open>_find_sqlite\<close> executes: an absent predicate leaves the
  place of the WHERE clause empty, and the statement then has a letter W only if the
  table name, the column list or the sort fields bring one; a direction of -1 or
  "DESC" is rendered DESC and any other ASC; an absent projection selects \<^verbatim>\<open>*\<close>; an
  absent limit leaves the place of the LIMIT clause empty, and the statement then has a
  letter I only if another part brings one.
\<close>

theorem query_str_rendering:
  "where_clause e QNone = []
   \<and> query_str e t QNone so p l
       = ''SELECT '' @ select_columns p @ '' FROM '' @ t @ ''  '' @ order_by_clause so
           @ '' '' @ limit_clause l
   \<and> (CHR ''W'' \<notin> set t \<and> CHR ''W'' \<notin> set (select_columns p)
        \<and> CHR ''W'' \<notin> set (order_by_clause so)
      \<longrightarrow> CHR ''W'' \<notin> set (query_str e t QNone so p l))
   \<and> dir_str d = (if d = DirInt (- 1) \<or> d = DirStr ''DESC'' then ''DESC'' else ''ASC'')
   \<and> order_by_clause (Some ((f, d) # ps))
       = ''ORDER BY '' @ join '', ''
           (map (\<lambda>(field, direction).
                   field @ '' ''
                     @ (if direction = DirInt (- 1) \<or> direction = DirStr ''DESC''
                        then ''DESC'' else ''ASC''))
              ((f, d) # ps))
   \<and> order_by_clause None = []
   \<and> select_columns PNone = ''*''
   \<and> query_str e t q so PNone l
       = ''SELECT * FROM '' @ t @ '' '' @ where_clause e q @ '' '' @ order_by_clause so
           @ '' '' @ limit_clause l
   \<and> limit_clause None = []
   \<and> query_str e t q so p None
       = ''SELECT '' @ select_columns p @ '' FROM '' @ t @ '' '' @ where_clause e q
           @ '' '' @ order_by_clause so @ '' ''
   \<and> (CHR ''I'' \<notin> set t \<and> CHR ''I'' \<notin> set (select_columns p)
        \<and> CHR ''I'' \<notin> set (where_clause e q) \<and> CHR ''I'' \<notin> set (order_by_clause so)
      \<longrightarrow> CHR ''I'' \<notin> set (query_str e t q so p None))"
proof -
  note w = limit_clause_no_W [of l]
  have dir: "(\<lambda>(field, direction). field @ '' '' @ dir_str direction)
               = (\<lambda>(field, direction).
                     field @ '' ''
                       @ (if direction = DirInt (- 1) \<or> direction = DirStr ''DESC''
                          then ''DESC'' else ''ASC''))"
    by (simp add: dir_str_def fun_eq_iff)
  have ob: "order_by_clause (Some ((f, d) # ps))
       = ''ORDER BY '' @ join '', ''
           (map (\<lambda>(field, direction). field @ '' '' @ dir_str direction) ((f, d) # ps))"
    by (simp add: order_by_clause_def)
  show ?thesis
    unfolding ob dir [symmetric]
    using w
    by (simp add: query_str_def where_clause_def select_columns_def limit_clause_def
        order_by_clause_def dir_str_def)
qed

text \<open>
  C5 on four requests: a sort with the directions "DESC", -1, "desc" and 1 and nothing
  else; statements without a W and without an I; and a request with all four parts.
\<close>

theorem query_str_rendering_witness:
  "query_str example_env ''rates'' QNone
       (Some [(''timestamp'', DirStr ''DESC''), (''currency'', DirInt (- 1)),
              (''rate'', DirStr ''desc''), (''rate'', DirInt 1)]) PNone None
     = ''SELECT * FROM rates  ORDER BY timestamp DESC, currency DESC, rate ASC, rate ASC ''
   \<and> CHR ''W'' \<notin> set (query_str example_env ''rates'' QNone
                          (Some [(''timestamp'', DirStr ''DESC'')]) PNone (Some 2))
   \<and> CHR ''I'' \<notin> set (query_str example_env ''rates'' (QWhere ''rate > 100'')
                          (Some [(''timestamp'', DirStr ''DESC'')]) PNone None)
   \<and> query_str example_env ''rates'' (QWhere ''rate > 100'')
       (Some [(''timestamp'', DirInt (- 1))]) (PColumns [''timestamp'', ''rate'']) (Some 25)
     = ''SELECT timestamp, rate FROM rates WHERE rate > 100 ORDER BY timestamp DESC LIMIT 25''"
  using query_str_rendering
      [of example_env "''rates''" "Some [(''timestamp'', DirStr ''DESC'')]" PNone "Some 2"
          "DirStr ''DESC''" "''timestamp''" "[]" "QWhere ''rate > 100''"]
  by (simp add: query_str_def where_clause_def select_columns_def limit_clause_def
      order_by_clause_def dir_str_def str_int_def str_nat.simps)

section \<open>The shape of a query result\<close>

text \<open>
  Claim C6. Both paths return a list of field-to-value mappings. When the statement
  executes, \<^verbatim>\<open>_find_sqlite\<close> returns, for each fetched row, the dict of the column names
  of the cursor's description zipped with the row: its keys are distinct and among
  those names, and with distinct names it is the zipped list itself. When the cursor
  evaluates, \<^verbatim>\<open>_find_mongo\<close> returns its documents as they are. \<^verbatim>\<open>find_records\<close> returns
  the list of the path it takes.
\<close>

theorem find_returns_mappings:
  "(sql_select e (query_str e (collection_name s) q so p l) (conn s) = Inr (columns, rows) \<longrightarrow>
      fst (find_sqlite e s q so p l) = map (\<lambda>row. py_dict (zip columns row)) rows
      \<and> (\<forall>d\<in>set (fst (find_sqlite e s q so p l)).
            distinct (map fst d) \<and> set (map fst d) \<subseteq> set columns)
      \<and> (distinct columns \<longrightarrow>
            fst (find_sqlite e s q so p l) = map (\<lambda>row. zip columns row) rows)
      \<and> ((mode s = ''aux'' \<or> mode s = ''main'') \<and> collection s = None \<longrightarrow>
            map_sum id fst (find_records e s q so p l)
              = Inr (map (\<lambda>row. py_dict (zip columns row)) rows)))
   \<and> (collection s = Some col
        \<and> mongo_find e col (if q = QNone then QFilter [] else q) p
            (if sort_truthy so then so else None) (if limit_truthy l then l else None)
          = Inr docs \<longrightarrow>
      fst (find_mongo e s q so p l) = docs
      \<and> (mode s = ''aux'' \<or> mode s = ''main'' \<longrightarrow>
            map_sum id fst (find_records e s q so p l) = Inr docs))"
proof -
  have keys: "distinct (map fst (py_dict (zip columns row)))
              \<and> set (map fst (py_dict (zip columns row))) \<subseteq> set columns" for row
    using py_dict_keys [of "zip columns row"] set_zip_leftD [of _ _ columns row]
    by (auto simp: image_iff)
  have plain: "py_dict (zip columns row) = zip columns row" if "distinct columns" for row
    using that by (intro py_dict_distinct distinct_zip_keys)
  show ?thesis
    using keys plain
    by (auto simp: find_sqlite_def find_mongo_def find_records_def emit_def Let_def)
qed

text \<open>
  C6 on one observation, stored in the table and in the collection: the relational
  path and the document path return the same one mapping.
\<close>

theorem find_returns_mappings_witness:
  "fst (find_sqlite example_env (after_push aux_instance btc_100) QNone None PNone None)
     = [[(''timestamp'', PyStr ''2024-01-01 00:00''), (''currency'', PyStr ''BTC''),
         (''rate'', PyFloat 0x4059000000000000)]]
   \<and> map_sum id fst
       (find_records example_env (snd (push_to_mongo_db aux_instance btc_100))
          QNone None PNone None)
     = Inr [[(''timestamp'', PyStr ''2024-01-01 00:00''), (''currency'', PyStr ''BTC''),
             (''rate'', PyFloat 0x4059000000000000)]]"
  using find_returns_mappings
      [of example_env "after_push aux_instance btc_100" QNone None PNone None
          "[''timestamp'', ''currency'', ''rate'']" "[btc_100]"
          "\<lparr>unavailable = None, documents = []\<rparr>" "[]"]
    find_returns_mappings
      [of example_env "snd (push_to_mongo_db aux_instance btc_100)" QNone None PNone None
          "[]" "[]"
          "\<lparr>unavailable = None,
            documents = [[(''timestamp'', PyStr ''2024-01-01 00:00''),
                          (''currency'', PyStr ''BTC''),
                          (''rate'', PyFloat 0x4059000000000000)]]\<rparr>"
          "[[(''timestamp'', PyStr ''2024-01-01 00:00''), (''currency'', PyStr ''BTC''),
             (''rate'', PyFloat 0x4059000000000000)]]"]
  by (simp add: aux_eval find_records_def find_mongo_def find_sqlite_def push_to_mongo_db_def
      insert_one_def py_dict_def example_env_def after_push_def push_to_sqlite_db_def
      query_str_def where_clause_def select_columns_def order_by_clause_def limit_clause_def)

section \<open>Construction without a document store\<close>





section \<open>Queries that fail\<close>

text \<open>
  Claim C8, as amended. When the execution of a query raises, \<^verbatim>\<open>_find_sqlite\<close> and
  \<^verbatim>\<open>_find_mongo\<close> raise nothing: they print the error and return the empty list, and so
  does \<^verbatim>\<open>find_records\<close> on an instance of a known mode. The caller receives the empty
  list and nothing else.
\<close>

theorem find_swallows_errors:
  "(sql_select e (query_str e (collection_name s) q so p l) (conn s) = Inl err \<longrightarrow>
      find_sqlite e s q so p l
        = ([], emit [Sqlite ExecuteSelect, Print (SqliteFindError err)] s))
   \<and> (collection s = Some col
        \<and> mongo_find e col (if q = QNone then QFilter [] else q) p
            (if sort_truthy so then so else None) (if limit_truthy l then l else None)
          = Inl err \<longrightarrow>
      find_mongo e s q so p l = ([], emit [Mongo Find, Print (MongoFindError err)] s)
      \<and> (mode s = ''aux'' \<or> mode s = ''main'' \<longrightarrow>
           find_records e s q so p l
             = Inr ([], emit [Mongo Find, Print (MongoFindError err)] s)))"
  by (auto simp: find_sqlite_def find_mongo_def find_records_def Let_def)

text \<open>C8 on a predicate cut short, on the relational path and through \<^verbatim>\<open>find_records\<close>.\<close>

theorem find_swallows_errors_witness:
  "find_sqlite example_env aux_instance (QWhere ''rate >'') None PNone None
     = ([], emit [Sqlite ExecuteSelect, Print (SqliteFindError OperationalError)] aux_instance)
   \<and> find_records example_env aux_instance (QWhere ''rate >'') None PNone None
     = Inr ([], emit [Mongo Find,
                      Print (MongoFindError
                               (PyMongoError ''filter must be an instance of dict''))]
                  aux_instance)"
  using find_swallows_errors
      [of example_env aux_instance "QWhere ''rate >''" None PNone None OperationalError
          "\<lparr>unavailable = None, documents = []\<rparr>"]
    find_swallows_errors
      [of example_env aux_instance "QWhere ''rate >''" None PNone None
          "PyMongoError ''filter must be an instance of dict''"
          "\<lparr>unavailable = None, documents = []\<rparr>"]
  by (simp add: example_env_def aux_instance_def query_str_def where_clause_def
      select_columns_def order_by_clause_def limit_clause_def)

text \<open>
  Claim C8 as stated fails: the error does not reach the caller. With one BTC
  observation stored, the query with the broken predicate returns what a well-formed
  query for XRP returns, the empty list; on the relational path it returns what an
  unfiltered query on an empty table returns.
\<close>

theorem find_error_not_returned:
  "map_sum id fst
     (find_records example_env (snd (push_to_mongo_db aux_instance btc_100))
        (QWhere ''rate >'') None PNone None)
     = map_sum id fst
         (find_records example_env (snd (push_to_mongo_db aux_instance btc_100))
            (QFilter [(''currency'', PyStr ''XRP'')]) None PNone None)
   \<and> map_sum id fst
       (find_records example_env (snd (push_to_mongo_db aux_instance btc_100))
          (QWhere ''rate >'') None PNone None) = Inr []
   \<and> fst (find_sqlite example_env (after_push aux_instance btc_100)
             (QWhere ''rate >'') None PNone None) = []
   \<and> fst (find_sqlite example_env aux_instance QNone None PNone None) = []"
  by (simp add: aux_eval find_records_def find_mongo_def find_sqlite_def push_to_mongo_db_def
      insert_one_def py_dict_def example_env_def after_push_def push_to_sqlite_db_def
      query_str_def where_clause_def select_columns_def order_by_clause_def limit_clause_def)

section \<open>The path of the unified query\<close>

text \<open>
  Claim C9. An instance that construction returns has its \<^verbatim>\<open>collection\<close> set, so
  \<^verbatim>\<open>find_records\<close> is \<^verbatim>\<open>_find_mongo\<close> on it, for every environment and every request,
  and the call executes no SELECT on the relational store.
\<close>

theorem find_records_dispatches_to_mongo:
  assumes "init e n c m u = Inr s"
  shows "collection s \<noteq> None
         \<and> find_records e' s q so p l = Inr (find_mongo e' s q so p l)
         \<and> Sqlite ExecuteSelect
             \<notin> set (drop (length (trace s)) (trace (snd (find_mongo e' s q so p l))))"
proof -
  from init_success [OF assms] obtain col where
    m: "mode s = ''aux'' \<or> mode s = ''main''" and col: "collection s = Some col"
    by auto
  from m col show ?thesis
    by (auto simp: find_records_def find_mongo_def emit_def Let_def split: sum.splits)
qed

text \<open>C9 on the hourly instance of the example environment.\<close>

theorem find_records_dispatches_to_mongo_witness:
  "init example_env ''forex'' ''rates'' ''aux'' (Some ''mongodb://atlas'')
     = Inr (emit [Sqlite Connect, Sqlite ExecuteSchema, Sqlite ExecutePragma,
                  Sqlite ExecutePragma, Mongo Ping, Print MongoConnected] aux_instance)
   \<and> find_records example_env
       (emit [Sqlite Connect, Sqlite ExecuteSchema, Sqlite ExecutePragma,
              Sqlite ExecutePragma, Mongo Ping, Print MongoConnected] aux_instance)
       QNone None PNone None
     = Inr (find_mongo example_env
       (emit [Sqlite Connect, Sqlite ExecuteSchema, Sqlite ExecutePragma,
              Sqlite ExecutePragma, Mongo Ping, Print MongoConnected] aux_instance)
       QNone None PNone None)"
  using find_records_dispatches_to_mongo
    [of example_env "''forex''" "''rates''" "''aux''" "Some ''mongodb://atlas''"
        "emit [Sqlite Connect, Sqlite ExecuteSchema, Sqlite ExecutePragma,
               Sqlite ExecutePragma, Mongo Ping, Print MongoConnected] aux_instance"
        example_env QNone None PNone None]
  by (simp add: init_def set_mode_specifics_def create_sqlite_db_def create_mongo_db_def
      example_env_def aux_instance_def emit_def Let_def)

section \<open>Single insert into the document store\<close>

text \<open>
  Claim C10. On a constructed instance whose server is up, a record whose length
  differs from the number of fields of the mode is inserted all the same: the document
  is the field names zipped with the values, cut to the shorter of the two, and
  nothing is printed.
\<close>

theorem push_to_mongo_db_truncates:
  assumes "constructed s"
    and "mongo_data_dict s = Some dd"
    and "collection s = Some col"
    and "unavailable col = None"
    and "length data \<noteq> length dd"
  shows "push_to_mongo_db s data
           = (PyNone,
              emit [Mongo InsertOne]
                (s\<lparr>collection :=
                     Some (col\<lparr>documents := documents col @ [zip (map fst dd) data]\<rparr>)\<rparr>))
         \<and> length (zip (map fst dd) data) = min (length dd) (length data)
         \<and> map fst (zip (map fst dd) data) = take (length data) (map fst dd)
         \<and> map snd (zip (map fst dd) data) = take (length dd) data"
proof -
  from assms(1,2) have "distinct (map fst dd)"
    by (auto elim: constructed_dict)
  then have "py_dict (zip (map fst dd) data) = zip (map fst dd) data"
    by (intro py_dict_distinct distinct_zip_keys)
  with assms(2-4) have "push_to_mongo_db s data
           = (PyNone,
              emit [Mongo InsertOne]
                (s\<lparr>collection :=
                     Some (col\<lparr>documents := documents col @ [zip (map fst dd) data]\<rparr>)\<rparr>))"
    by (simp add: push_to_mongo_db_def insert_one_def)
  moreover have "map fst (zip (map fst dd) data) = take (length data) (map fst dd)"
    by (cases "length dd \<le> length data") (simp_all add: map_fst_zip_take)
  moreover have "map snd (zip (map fst dd) data) = take (length dd) data"
    by (cases "length dd \<le> length data") (simp_all add: map_snd_zip_take)
  ultimately show ?thesis by simp
qed

text \<open>C10 on a record of two values and on one of four, in hourly mode.\<close>

theorem push_to_mongo_db_truncates_witness:
  "push_to_mongo_db aux_instance [PyStr ''2024-01-01 00:00'', PyStr ''BTC'']
     = (PyNone,
        emit [Mongo InsertOne]
          (aux_instance\<lparr>collection :=
             Some \<lparr>unavailable = None,
                   documents = [[(''timestamp'', PyStr ''2024-01-01 00:00''),
                                 (''currency'', PyStr ''BTC'')]]\<rparr>\<rparr>))
   \<and> push_to_mongo_db aux_instance (btc_100 @ [PyInt 7])
     = (PyNone,
        emit [Mongo InsertOne]
          (aux_instance\<lparr>collection :=
             Some \<lparr>unavailable = None,
                   documents = [[(''timestamp'', PyStr ''2024-01-01 00:00''),
                                 (''currency'', PyStr ''BTC''),
                                 (''rate'', PyFloat 0x4059000000000000)]]\<rparr>\<rparr>))"
  using push_to_mongo_db_truncates
      [of aux_instance "[(''timestamp'', PyNone), (''currency'', PyNone), (''rate'', PyNone)]"
          "\<lparr>unavailable = None, documents = []\<rparr>"
          "[PyStr ''2024-01-01 00:00'', PyStr ''BTC'']"]
    push_to_mongo_db_truncates
      [of aux_instance "[(''timestamp'', PyNone), (''currency'', PyNone), (''rate'', PyNone)]"
          "\<lparr>unavailable = None, documents = []\<rparr>"
          "btc_100 @ [PyInt 7]"]
  by (simp add: constructed_def set_mode_specifics_def aux_instance_def btc_100_def)

end
